theory Spec2Isabelle
  imports Main "HOL-Library.AList"
begin

section \<open>Python values used by \<open>rag_model/rag_utils.py\<close>\<close>

text \<open>
  Strings are lists of characters; a character stands for a code point below 256.
  \<open>isspace\<close> is Python's \<open>str.isspace\<close> on that range, \<open>strip\<close> and \<open>lower\<close> are
  \<open>str.strip()\<close> and \<open>str.lower()\<close>.
\<close>

definition isspace :: "char \<Rightarrow> bool" where
  "isspace c = ((of_char c :: nat) \<in> {9, 10, 11, 12, 13, 28, 29, 30, 31, 32, 133, 160})"

definition strip :: "string \<Rightarrow> string" where
  "strip s = rev (dropWhile isspace (rev (dropWhile isspace s)))"

definition lower_char :: "char \<Rightarrow> char" where
  "lower_char c =
     (let n = (of_char c :: nat) in
      if (65 \<le> n \<and> n \<le> 90) \<or> (192 \<le> n \<and> n \<le> 222 \<and> n \<noteq> 215)
      then (case c of Char b0 b1 b2 b3 b4 b5 b6 b7 \<Rightarrow> Char b0 b1 b2 b3 b4 True b6 b7)
      else c)"

definition lower :: "string \<Rightarrow> string" where
  "lower s = map lower_char s"

text \<open>\<open>str(n)\<close> for a Python int: decimal digits, a minus sign for negatives.\<close>

definition digit_char :: "nat \<Rightarrow> char" where
  "digit_char d = ''0123456789'' ! d"

fun digits :: "nat \<Rightarrow> string" where
  "digits n = (if n < 10 then [digit_char n] else digits (n div 10) @ [digit_char (n mod 10)])"

declare digits.simps [simp del]

definition str_int :: "int \<Rightarrow> string" where
  "str_int i = (if i < 0 then CHR ''-'' # digits (nat (- i)) else digits (nat i))"

text \<open>
  \<open>str.splitlines()\<close>: a line ends at \<open>\n\<close>, \<open>\r\<close>, \<open>\r\n\<close>, \<open>\v\<close>, \<open>\f\<close>,
  \<open>\x1c\<close>, \<open>\x1d\<close>, \<open>\x1e\<close> or \<open>\x85\<close>; the terminators are dropped and a
  terminator at the very end opens no further line.
\<close>

definition is_linebreak :: "char \<Rightarrow> bool" where
  "is_linebreak c = ((of_char c :: nat) \<in> {10, 11, 12, 13, 28, 29, 30, 133})"

fun splitlines_aux :: "string \<Rightarrow> string \<Rightarrow> string list" where
  "splitlines_aux cur [] = (if cur = [] then [] else [cur])"
| "splitlines_aux cur (c # cs) =
     (if is_linebreak c
      then (case cs of
              d # ds \<Rightarrow> (if (of_char c :: nat) = 13 \<and> (of_char d :: nat) = 10
                         then cur # splitlines_aux [] ds
                         else cur # splitlines_aux [] cs)
            | [] \<Rightarrow> [cur])
      else splitlines_aux (cur @ [c]) cs)"

definition splitlines :: "string \<Rightarrow> string list" where
  "splitlines s = splitlines_aux [] s"

definition startswith :: "string \<Rightarrow> string \<Rightarrow> bool" where
  "startswith s p = (take (length p) s = p)"

definition endswith :: "string \<Rightarrow> string \<Rightarrow> bool" where
  "endswith s p = (length p \<le> length s \<and> drop (length s - length p) s = p)"

text \<open>
  A Python dict with string keys is an association list; \<open>dict_get d k dflt\<close> is
  \<open>d.get(k, dflt)\<close> and \<open>AList.update\<close> is the assignment \<open>d[k] = v\<close>.
\<close>

type_synonym 'a dict = "(string \<times> 'a) list"

definition dict_get :: "'a dict \<Rightarrow> string \<Rightarrow> 'a \<Rightarrow> 'a" where
  "dict_get d k dflt = (case map_of d k of Some v \<Rightarrow> v | None \<Rightarrow> dflt)"

text \<open>
  The exceptions the module can meet, all subclasses of \<open>Exception\<close>:
  \<open>ClientError c\<close> is botocore's \<open>ClientError\<close> whose
  \<open>e.response['Error']['Code']\<close> is \<open>c\<close>; \<open>NameError n\<close> is the lookup of the
  unbound global \<open>n\<close>; \<open>AttributeError a\<close> is the lookup of a missing attribute;
  \<open>OtherException\<close> is any other failure of an external call (network, parsing).
\<close>

datatype exn =
    ClientError string
  | NameError string
  | AttributeError string
  | OtherException string

text \<open>The text of \<open>str(e)\<close>, as far as the log lines need it.\<close>

fun str_exn :: "exn \<Rightarrow> string" where
  "str_exn (ClientError c) = ''An error occurred ('' @ c @ '')''"
| "str_exn (NameError n) = ''name '' @ n @ '' is not defined''"
| "str_exn (AttributeError a) = ''object has no attribute '' @ a"
| "str_exn (OtherException m) = m"

section \<open>The external world\<close>

text \<open>Configuration constants of the module (environment defaults).\<close>

definition S3_VECTORS_BUCKET_NAME :: string where
  "S3_VECTORS_BUCKET_NAME = ''rag-vectordb-bucket''"

definition S3_VECTORS_INDEX_NAME :: string where
  "S3_VECTORS_INDEX_NAME = ''tenant-knowledge-index''"

definition S3_BUCKET_NAME :: string where
  "S3_BUCKET_NAME = ''rag-chat-uploads''"

definition S3_PREFIX_KNOWLEDGE :: string where
  "S3_PREFIX_KNOWLEDGE = ''knowledge_base''"

definition TENANT_ID_KEY :: string where
  "TENANT_ID_KEY = ''tenant_id''"

definition SOURCE_KEY :: string where
  "SOURCE_KEY = ''source''"

definition CONTENT_PREVIEW_KEY :: string where
  "CONTENT_PREVIEW_KEY = ''content_preview''"

definition INDEXING_QUEUE_URL :: string where
  "INDEXING_QUEUE_URL = ''https://sqs.ap-south-1.amazonaws.com/068733247141/RagLambdaIndexing.fifo''"

text \<open>The kinds of call the module makes to services and libraries outside it.\<close>

datatype call =
    SendMessage
  | GetObject
  | ListObjectsV2
  | DownloadFile
  | ListVectorBuckets
  | CreateVectorBucket
  | PutVectors
  | DeleteVectors
  | CreateIndex
  | QueryVectors
  | EmbedQuery
  | EmbedDocuments
  | HttpGet
  | LoaderLoad
  | LLMInvoke

text \<open>
  A Vector Record as the code builds it: a key, the embedding (\<open>'f\<close> stands for
  float32, of which the model only needs a zero and an order) and string metadata.
\<close>

record 'f vector_record =
  key :: string
  data :: "'f list"
  metadata :: "string dict"

record index_config =
  dataType :: string
  dimension :: nat
  distanceMetric :: string
  nonFilterableMetadataKeys :: "string list"

record sqs_message =
  QueueUrl :: string
  MessageBody :: string
  MessageGroupId :: string
  MessageDeduplicationId :: string

text \<open>A LangChain \<open>Document\<close>; \<open>similarity_score\<close> is set only by retrieval.\<close>

record 'f document =
  page_content :: string
  doc_metadata :: "string dict"
  similarity_score :: "'f option"

text \<open>
  A value of the fixed-response JSON file: a string, an object, or any other value
  (number, list, boolean, null), the last given by the text Python's \<open>str()\<close> has
  for it.
\<close>

datatype json = JString string | JObject "(string \<times> json) list" | JOther string

text \<open>
  Everything outside the module, as one state:
  \<^item> \<open>faults c n\<close>: the exception, if any, with which the \<open>n\<close>-th call (from 0) of
    kind \<open>c\<close> fails; \<open>calls\<close> is the trace of the calls made so far, each with
    the size of its request (the number of records or keys sent, \<open>topK\<close> for a
    query, 0 where there is none);
  \<^item> \<open>stdout\<close>: the lines printed;
  \<^item> \<open>sqs_queue\<close>: the messages accepted by the indexing queue;
  \<^item> \<open>s3_objects\<close>: the objects of bucket \<open>S3_BUCKET_NAME\<close>, key to content;
  \<^item> \<open>vector_buckets\<close>, \<open>vector_index\<close>, \<open>index_vectors\<close>: the vector backend: the
    bucket names, the configuration of the index \<open>S3_VECTORS_INDEX_NAME\<close> when it
    exists, and the records it holds; \<open>distance\<close> is its distance function;
  \<^item> \<open>uuid_source\<close>, \<open>uuid_count\<close>: the supply \<open>uuid.uuid4()\<close> draws from;
  \<^item> \<open>embed\<close>: the embedding model; \<open>web\<close>: status code and page text per URL;
    \<open>html_text\<close>: BeautifulSoup's text extraction; \<open>loader_load\<close>: the document
    loader chosen by extension, applied to a file's content; \<open>split_documents\<close>:
    the text splitter; \<open>llm\<close>: the generation model;
  \<^item> \<open>FIXED_RESPONSES\<close>: the table read from \<open>fixed_responses.json\<close> at import;
    \<open>dict_str\<close> is Python's \<open>str()\<close> on an object of that table.
\<close>

record 'f world =
  faults :: "call \<Rightarrow> nat \<Rightarrow> exn option"
  calls :: "(call \<times> nat) list"
  stdout :: "string list"
  sqs_queue :: "sqs_message list"
  s3_objects :: "string dict"
  vector_buckets :: "string list"
  vector_index :: "index_config option"
  index_vectors :: "'f vector_record list"
  distance :: "'f list \<Rightarrow> 'f list \<Rightarrow> 'f"
  uuid_source :: "nat \<Rightarrow> string"
  uuid_count :: nat
  embed :: "string \<Rightarrow> 'f list"
  web :: "string \<Rightarrow> nat \<times> string"
  html_text :: "string \<Rightarrow> string"
  loader_load :: "string \<Rightarrow> string \<Rightarrow> 'f document list"
  split_documents :: "'f document list \<Rightarrow> 'f document list"
  llm :: "string list \<Rightarrow> 'f document list \<Rightarrow> string \<Rightarrow> string"
  FIXED_RESPONSES :: "json dict"
  dict_str :: "(string \<times> json) list \<Rightarrow> string"

text \<open>
  A statement of the module is a function from the world to a result and the world
  after it: \<open>Inl e\<close> when exception \<open>e\<close> is raised, \<open>Inr v\<close> when \<open>v\<close> is returned.
\<close>

type_synonym ('a, 'f) io = "'f world \<Rightarrow> (exn + 'a) \<times> 'f world"

definition ret :: "'a \<Rightarrow> ('a, 'f) io" where
  "ret x w = (Inr x, w)"

definition raise :: "exn \<Rightarrow> ('a, 'f) io" where
  "raise e w = (Inl e, w)"

definition bind :: "('a, 'f) io \<Rightarrow> ('a \<Rightarrow> ('b, 'f) io) \<Rightarrow> ('b, 'f) io" where
  "bind m f w = (case m w of (Inl e, w') \<Rightarrow> (Inl e, w') | (Inr x, w') \<Rightarrow> f x w')"

definition seq :: "('a, 'f) io \<Rightarrow> ('b, 'f) io \<Rightarrow> ('b, 'f) io" where
  "seq m n = bind m (\<lambda>_. n)"

text \<open>\<open>try: m except ClientError as e: h(code of e)\<close>; other exceptions pass.\<close>

definition except_ClientError :: "('a, 'f) io \<Rightarrow> (string \<Rightarrow> ('a, 'f) io) \<Rightarrow> ('a, 'f) io" where
  "except_ClientError m h w =
     (case m w of (Inl (ClientError c), w') \<Rightarrow> h c w' | r \<Rightarrow> r)"

text \<open>\<open>try: m except Exception as e: h(e)\<close>.\<close>

definition except_Exception :: "('a, 'f) io \<Rightarrow> (exn \<Rightarrow> ('a, 'f) io) \<Rightarrow> ('a, 'f) io" where
  "except_Exception m h w = (case m w of (Inl e, w') \<Rightarrow> h e w' | r \<Rightarrow> r)"

text \<open>
  \<open>try: m finally: fin\<close>: \<open>fin\<close> runs in either case; an exception of \<open>fin\<close>
  replaces the outcome of \<open>m\<close>.
\<close>

definition try_finally :: "('a, 'f) io \<Rightarrow> (unit, 'f) io \<Rightarrow> ('a, 'f) io" where
  "try_finally m fin w =
     (case m w of (r, w') \<Rightarrow>
        (case fin w' of (Inl e, w'') \<Rightarrow> (Inl e, w'') | (Inr _, w'') \<Rightarrow> (r, w'')))"

definition print :: "string \<Rightarrow> (unit, 'f) io" where
  "print s w = (Inr (), w\<lparr>stdout := stdout w @ [s]\<rparr>)"

text \<open>
  An external call of kind \<open>c\<close> with a request of size \<open>n\<close>: it is recorded in the
  trace, fails with the fault scheduled for this occurrence of \<open>c\<close> if there is one,
  and otherwise runs \<open>body\<close>.
\<close>

definition occurrences :: "'f world \<Rightarrow> call \<Rightarrow> nat" where
  "occurrences w c = length (filter (\<lambda>x. fst x = c) (calls w))"

definition invoke :: "call \<Rightarrow> nat \<Rightarrow> ('a, 'f) io \<Rightarrow> ('a, 'f) io" where
  "invoke c n body w =
     (let w1 = w\<lparr>calls := calls w @ [(c, n)]\<rparr> in
      case faults w c (occurrences w c) of
        Some e \<Rightarrow> (Inl e, w1)
      | None \<Rightarrow> body w1)"

definition uuid4 :: "(string, 'f) io" where
  "uuid4 w = (Inr (uuid_source w (uuid_count w)), w\<lparr>uuid_count := Suc (uuid_count w)\<rparr>)"

section \<open>The re-index trigger\<close>

text \<open>
  \<open>trigger_reindexing\<close> (lines 61-71). The message body is
  \<open>json.dumps({"tenant_id": tenant_id})\<close>.
\<close>

definition sqs_send_message :: "sqs_message \<Rightarrow> (unit, 'f) io" where
  "sqs_send_message m =
     invoke SendMessage 0 (\<lambda>w. (Inr (), w\<lparr>sqs_queue := sqs_queue w @ [m]\<rparr>))"

definition trigger_reindexing :: "int \<Rightarrow> (unit, 'f) io" where
  "trigger_reindexing tenant_id =
     except_Exception
       (bind uuid4 (\<lambda>u.
        seq (sqs_send_message
               \<lparr>QueueUrl = INDEXING_QUEUE_URL,
                MessageBody = ''{\"tenant_id\": '' @ str_int tenant_id @ ''}'',
                MessageGroupId = ''reindexing'',
                MessageDeduplicationId = u\<rparr>)
            (print (''Reindexing queued for tenant '' @ str_int tenant_id))))
       (\<lambda>e. print (''SQS failed: '' @ str_exn e))"

section \<open>The vector backend\<close>

text \<open>
  Modelled from the spec: the vector backend is a service outside the repository; the
  module only calls it. Its operations follow the spec's interface description
  (sections 4.1 and 6): create-bucket, create-index, put-vectors (upsert by key),
  delete-vectors (by key), and query-vectors, which is filtered by metadata, ranked by
  distance (closer first), cut to \<open>topK\<close> records per page and continued by a token.
  While the index does not exist, an operation on it fails with
  \<open>NotFoundException\<close>, the code \<open>ensure_vector_index\<close> probes for.
\<close>

text \<open>The two filter shapes the module sends: \<open>{k: v}\<close> and \<open>{k: {op: v}}\<close>.\<close>

datatype md_filter = Filter_value string string | Filter_op string string string

fun matches :: "md_filter \<Rightarrow> string dict \<Rightarrow> bool" where
  "matches (Filter_value k v) md = (map_of md k = Some v)"
| "matches (Filter_op k opr v) md = (opr = ''eq'' \<and> map_of md k = Some v)"

record 'f query_item =
  item_key :: string
  item_metadata :: "string dict option"
  item_distance :: "'f option"

record 'f query_response =
  vectors :: "'f query_item list"
  nextToken :: "nat option"

definition list_vector_buckets :: "(string list, 'f) io" where
  "list_vector_buckets = invoke ListVectorBuckets 0 (\<lambda>w. (Inr (vector_buckets w), w))"

definition create_vector_bucket :: "string \<Rightarrow> (unit, 'f) io" where
  "create_vector_bucket name =
     invoke CreateVectorBucket 0 (\<lambda>w.
       if name \<in> set (vector_buckets w) then (Inl (ClientError ''ConflictException''), w)
       else (Inr (), w\<lparr>vector_buckets := vector_buckets w @ [name]\<rparr>))"

definition create_index :: "index_config \<Rightarrow> (unit, 'f) io" where
  "create_index cfg =
     invoke CreateIndex 0 (\<lambda>w.
       if S3_VECTORS_BUCKET_NAME \<notin> set (vector_buckets w)
       then (Inl (ClientError ''NotFoundException''), w)
       else (case vector_index w of
               Some _ \<Rightarrow> (Inl (ClientError ''ConflictException''), w)
             | None \<Rightarrow> (Inr (), w\<lparr>vector_index := Some cfg, index_vectors := []\<rparr>)))"

definition put_vectors :: "'f vector_record list \<Rightarrow> (unit, 'f) io" where
  "put_vectors vs =
     invoke PutVectors (length vs) (\<lambda>w.
       case vector_index w of
         None \<Rightarrow> (Inl (ClientError ''NotFoundException''), w)
       | Some _ \<Rightarrow>
           (Inr (), w\<lparr>index_vectors :=
                        filter (\<lambda>r. key r \<notin> set (map key vs)) (index_vectors w) @ vs\<rparr>))"

definition delete_vectors :: "string list \<Rightarrow> (unit, 'f) io" where
  "delete_vectors ks =
     invoke DeleteVectors (length ks) (\<lambda>w.
       case vector_index w of
         None \<Rightarrow> (Inl (ClientError ''NotFoundException''), w)
       | Some _ \<Rightarrow>
           (Inr (), w\<lparr>index_vectors := filter (\<lambda>r. key r \<notin> set ks) (index_vectors w)\<rparr>))"

text \<open>The records a filtered query ranks: those that match, closest first.\<close>

definition ranked :: "'f::linorder world \<Rightarrow> 'f list \<Rightarrow> md_filter \<Rightarrow> 'f vector_record list" where
  "ranked w q flt =
     sort_key (\<lambda>r. distance w q (data r))
       (filter (\<lambda>r. matches flt (metadata r)) (index_vectors w))"

definition to_item ::
  "'f world \<Rightarrow> 'f list \<Rightarrow> bool \<Rightarrow> bool \<Rightarrow> 'f vector_record \<Rightarrow> 'f query_item" where
  "to_item w q returnMetadata returnDistance r =
     \<lparr>item_key = key r,
      item_metadata = (if returnMetadata then Some (metadata r) else None),
      item_distance = (if returnDistance then Some (distance w q (data r)) else None)\<rparr>"

definition query_vectors ::
  "'f list \<Rightarrow> nat \<Rightarrow> md_filter \<Rightarrow> bool \<Rightarrow> bool \<Rightarrow> nat option
     \<Rightarrow> ('f query_response, 'f::linorder) io" where
  "query_vectors q topK flt returnMetadata returnDistance tok =
     invoke QueryVectors topK (\<lambda>w.
       case vector_index w of
         None \<Rightarrow> (Inl (ClientError ''NotFoundException''), w)
       | Some _ \<Rightarrow>
           (let off = (case tok of None \<Rightarrow> 0 | Some n \<Rightarrow> n);
                rs = ranked w q flt
            in (Inr \<lparr>vectors = map (to_item w q returnMetadata returnDistance)
                                  (take topK (drop off rs)),
                     nextToken = (if off + topK < length rs then Some (off + topK) else None)\<rparr>,
                w)))"

text \<open>
  Modelled from the spec: the embedding capability (section 6) is a function from a
  text to a vector; a batch is embedded text by text.
\<close>

definition embed_query :: "string \<Rightarrow> ('f list, 'f) io" where
  "embed_query text = invoke EmbedQuery 1 (\<lambda>w. (Inr (embed w text), w))"

definition embed_documents :: "string list \<Rightarrow> ('f list list, 'f) io" where
  "embed_documents texts =
     invoke EmbedDocuments (length texts) (\<lambda>w. (Inr (map (embed w) texts), w))"

section \<open>Vector index manager\<close>

text \<open>\<open>[0.0] * 1024\<close>.\<close>

definition zero_vector :: "'f::zero list" where
  "zero_vector = replicate 1024 0"

definition ping :: "'f::zero vector_record" where
  "ping = \<lparr>key = ''ping'', data = zero_vector, metadata = [(''tenant_id'', ''0'')]\<rparr>"

text \<open>
  \<open>ensure_vector_index\<close> (lines 163-215), in the order of the source: the bucket
  (lines 167-170), the probe (lines 173-192), the creation (lines 195-206) and the
  outer handler (lines 208-215). The probe yields whether it went through, in which
  case the function returns at once (line 189). Here and below a dash in a printed
  line stands for the source's long dash.
\<close>

definition ensure_bucket :: "(unit, 'f) io" where
  "ensure_bucket =
     bind list_vector_buckets (\<lambda>buckets.
       if \<not> list_ex (\<lambda>b. b = S3_VECTORS_BUCKET_NAME) buckets
       then seq (print (''Creating vector bucket '' @ S3_VECTORS_BUCKET_NAME @ ''...''))
                (create_vector_bucket S3_VECTORS_BUCKET_NAME)
       else ret ())"

definition probe_index :: "(bool, 'f::zero) io" where
  "probe_index =
     except_ClientError
       (seq (put_vectors [ping])
       (seq (delete_vectors [''ping''])
       (seq (print (''Index '' @ S3_VECTORS_INDEX_NAME @ '' exists and ready''))
            (ret True))))
       (\<lambda>c. if c \<notin> set [''NotFoundException'', ''ValidationException'']
            then raise (ClientError c) else ret False)"

definition the_index_config :: index_config where
  "the_index_config =
     \<lparr>dataType = ''float32'', dimension = 1024, distanceMetric = ''cosine'',
      nonFilterableMetadataKeys = [''internal_id'']\<rparr>"

definition create_the_index :: "(unit, 'f) io" where
  "create_the_index =
     seq (print (''Creating vector index '' @ S3_VECTORS_INDEX_NAME @ '' (first time only)...''))
    (seq (create_index the_index_config)
         (print ''INDEX CREATED SUCCESSFULLY - tenant_id filtering ENABLED''))"

definition on_ClientError :: "string \<Rightarrow> (unit, 'f) io" where
  "on_ClientError error_code =
     (if error_code \<in> set [''ConflictException'', ''ResourceInUseException'']
      then print ''Index already exists (created by another process) - continuing safely''
      else seq (print (''Fatal error creating index: '' @ str_exn (ClientError error_code)))
               (raise (ClientError error_code)))"

definition ensure_vector_index :: "(unit, 'f::zero) io" where
  "ensure_vector_index =
     except_ClientError
       (seq ensure_bucket
            (bind probe_index (\<lambda>ready. if ready then ret () else create_the_index)))
       on_ClientError"

text \<open>
  \<open>delete_tenant_vectors\<close> (lines 217-264). \<open>scan_keys\<close> is the \<open>while True\<close> loop
  of lines 225-243 with its two loop variables; a token the backend returns is a
  non-empty value, hence true in \<open>if next_token\<close>. \<open>delete_batches\<close> is the loop of
  lines 247-253 over \<open>range(0, len(keys_to_delete), 100)\<close>.
\<close>

function scan_keys ::
  "int \<Rightarrow> string list \<Rightarrow> nat option \<Rightarrow> (string list, 'f::{zero,linorder}) io" where
  "scan_keys tenant_id keys_to_delete next_token w =
     (case query_vectors zero_vector 30 (Filter_op TENANT_ID_KEY ''eq'' (str_int tenant_id))
             False False next_token w of
        (Inl e, w') \<Rightarrow> (Inl e, w')
      | (Inr resp, w') \<Rightarrow>
          (let keys' = keys_to_delete @ map item_key (vectors resp) in
           case nextToken resp of
             None \<Rightarrow> (Inr keys', w')
           | Some t \<Rightarrow> scan_keys tenant_id keys' (Some t) w'))"
  by pat_completeness auto

termination scan_keys
  apply (relation "measure (\<lambda>(t, ks, tok, w).
           length (index_vectors w) - (case tok of None \<Rightarrow> 0 | Some n \<Rightarrow> n))")
   apply simp
  apply (auto simp: query_vectors_def invoke_def Let_def ranked_def
              split: option.splits if_splits)
  subgoal for t w cfg
    using length_filter_le
      [of "\<lambda>r. map_of (metadata r) TENANT_ID_KEY = Some (str_int t)" "index_vectors w"]
    by linarith
  subgoal for t w cfg n
    using length_filter_le
      [of "\<lambda>r. map_of (metadata r) TENANT_ID_KEY = Some (str_int t)" "index_vectors w"]
    by linarith
  done

declare scan_keys.simps [simp del]

function delete_batches :: "string list \<Rightarrow> nat \<Rightarrow> (unit, 'f) io" where
  "delete_batches keys i =
     (if i < length keys
      then seq (delete_vectors (take 100 (drop i keys))) (delete_batches keys (i + 100))
      else ret ())"
  by pat_completeness auto

termination delete_batches
  by (relation "measure (\<lambda>(keys, i). length keys - i)") auto

declare delete_batches.simps [simp del]

definition delete_tenant_vectors :: "int \<Rightarrow> (unit, 'f::{zero,linorder}) io" where
  "delete_tenant_vectors tenant_id =
     except_ClientError
       (seq (print (''Scanning and deleting vectors for tenant '' @ str_int tenant_id
                     @ '' (max 30 per page)...''))
       (bind (scan_keys tenant_id [] None) (\<lambda>keys_to_delete.
          if keys_to_delete \<noteq> []
          then seq (delete_batches keys_to_delete 0)
                   (print (''Deleted '' @ str_int (int (length keys_to_delete))
                            @ '' vectors for tenant '' @ str_int tenant_id))
          else print (''No vectors found for tenant '' @ str_int tenant_id))))
       (\<lambda>error_code.
          if error_code \<in> set [''ResourceNotFoundException'', ''ValidationException'']
          then print ''Index not ready or no vectors - skipping delete''
          else print (''Delete failed: '' @ str_exn (ClientError error_code)))"

section \<open>Retrieval\<close>

text \<open>
  \<open>retrieve_s3_vectors\<close> (lines 355-389). \<open>docs_of_items\<close> is the loop of lines
  379-388 over \<open>resp.get("vectors", [])\<close>; the handler of lines 371-376 returns the
  empty list for every \<open>ClientError\<close>.
\<close>

fun docs_of_items :: "'f query_item list \<Rightarrow> 'f document list" where
  "docs_of_items [] = []"
| "docs_of_items (v # vs) =
     (let meta = (case item_metadata v of Some m \<Rightarrow> m | None \<Rightarrow> []);
          content = strip (dict_get meta CONTENT_PREVIEW_KEY '''')
      in if content = [] then docs_of_items vs
         else \<lparr>page_content = content,
               doc_metadata = [(''source'', dict_get meta SOURCE_KEY ''S3 Vectors'')],
               similarity_score = item_distance v\<rparr> # docs_of_items vs)"

definition retrieve_s3_vectors ::
  "string \<Rightarrow> int \<Rightarrow> nat \<Rightarrow> ('f document list, 'f::{zero,linorder}) io" where
  "retrieve_s3_vectors query tenant_id top_k =
     seq ensure_vector_index
    (bind (embed_query query) (\<lambda>q_vec.
     bind (except_ClientError
             (bind (query_vectors q_vec top_k (Filter_value TENANT_ID_KEY (str_int tenant_id))
                      True True None)
                   (\<lambda>resp. ret (Some resp)))
             (\<lambda>error_code.
                if error_code = ''ResourceNotFoundException'' then ret None
                else seq (print (''Query failed: '' @ str_exn (ClientError error_code)))
                         (ret None)))
          (\<lambda>resp. case resp of
                     None \<Rightarrow> ret []
                   | Some r \<Rightarrow> ret (docs_of_items (vectors r)))))"

section \<open>Document acquisition\<close>

text \<open>
  Modelled from the spec: object storage (section 6) holds the tenant's objects by key;
  reading a key that is absent fails with \<open>NoSuchKey\<close>.
\<close>

definition get_object :: "string \<Rightarrow> (string, 'f) io" where
  "get_object k =
     invoke GetObject 0 (\<lambda>w.
       case map_of (s3_objects w) k of
         None \<Rightarrow> (Inl (ClientError ''NoSuchKey''), w)
       | Some content \<Rightarrow> (Inr content, w))"

definition download_file :: "string \<Rightarrow> (string, 'f) io" where
  "download_file k =
     invoke DownloadFile 0 (\<lambda>w.
       case map_of (s3_objects w) k of
         None \<Rightarrow> (Inl (ClientError ''404''), w)
       | Some content \<Rightarrow> (Inr content, w))"

definition list_objects :: "string \<Rightarrow> (string list, 'f) io" where
  "list_objects prefix =
     invoke ListObjectsV2 0 (\<lambda>w.
       (Inr (filter (\<lambda>k. startswith k prefix) (map fst (s3_objects w))), w))"

text \<open>\<open>s3_list_tenant_files\<close> (lines 141-150).\<close>

definition s3_list_tenant_files :: "int \<Rightarrow> (string list, 'f) io" where
  "s3_list_tenant_files tenant_id =
     bind (list_objects (S3_PREFIX_KNOWLEDGE @ ''/'' @ str_int tenant_id @ ''/''))
       (\<lambda>keys. ret (filter (\<lambda>k. \<not> endswith k ''/urls.txt'') keys))"

text \<open>
  Line 156 calls the global \<open>is_valid_url\<close>. Its only definition is commented out
  (lines 103-108) and no import binds the name, so evaluating the call raises
  \<open>NameError\<close>.
\<close>

definition is_valid_url :: "string \<Rightarrow> (bool, 'f) io" where
  "is_valid_url url = raise (NameError ''is_valid_url'')"

text \<open>
  \<open>s3_load_urls_from_file\<close> (lines 152-158). \<open>url_lines\<close> is the list comprehension
  of line 156: \<open>is_valid_url\<close> is evaluated only for a line that is not blank.
\<close>

fun url_lines :: "string list \<Rightarrow> (string list, 'f) io" where
  "url_lines [] = ret []"
| "url_lines (line # rest) =
     (if strip line \<noteq> []
      then bind (is_valid_url (strip line)) (\<lambda>valid.
           bind (url_lines rest) (\<lambda>urls.
             ret (if valid then strip line # urls else urls)))
      else url_lines rest)"

definition s3_load_urls_from_file :: "int \<Rightarrow> (string list, 'f) io" where
  "s3_load_urls_from_file tenant_id =
     except_ClientError
       (bind (get_object (S3_PREFIX_KNOWLEDGE @ ''/'' @ str_int tenant_id @ ''/urls.txt''))
          (\<lambda>content. url_lines (splitlines content)))
       (\<lambda>_. ret [])"

text \<open>\<open>clean_text\<close> (lines 110-111): \<open>re.sub(r'\s+', ' ', text).strip()\<close>.\<close>

fun collapse_spaces :: "bool \<Rightarrow> string \<Rightarrow> string" where
  "collapse_spaces in_run [] = []"
| "collapse_spaces in_run (c # cs) =
     (if isspace c
      then (if in_run then collapse_spaces True cs else CHR '' '' # collapse_spaces True cs)
      else c # collapse_spaces False cs)"

definition clean_text :: "string \<Rightarrow> string" where
  "clean_text text = strip (collapse_spaces False text)"

text \<open>
  \<open>fetch_url_content\<close> (lines 113-128) and \<open>crawl_urls_lightweight\<close> (lines
  130-136); the pool's \<open>map\<close> yields the results in the order of the URLs.
\<close>

definition httpx_get :: "string \<Rightarrow> (nat \<times> string, 'f) io" where
  "httpx_get url = invoke HttpGet 0 (\<lambda>w. (Inr (web w url), w))"

definition soup_get_text :: "string \<Rightarrow> (string, 'f) io" where
  "soup_get_text html w = (Inr (html_text w html), w)"

definition fetch_url_content :: "string \<Rightarrow> ('f document option, 'f) io" where
  "fetch_url_content url =
     except_Exception
       (bind (httpx_get url) (\<lambda>resp.
          if fst resp \<noteq> 200 then ret None
          else bind (soup_get_text (snd resp)) (\<lambda>raw.
                 let text = clean_text raw in
                 if length text < 150 then ret None
                 else ret (Some \<lparr>page_content = take 15000 text,
                                 doc_metadata = [(''source'', url)],
                                 similarity_score = None\<rparr>))))
       (\<lambda>e. seq (print (''[Crawl] Failed '' @ url @ '': '' @ str_exn e)) (ret None))"

fun crawl_urls_lightweight :: "string list \<Rightarrow> ('f document list, 'f) io" where
  "crawl_urls_lightweight [] = ret []"
| "crawl_urls_lightweight (url # urls) =
     bind (fetch_url_content url) (\<lambda>doc.
     bind (crawl_urls_lightweight urls) (\<lambda>docs.
       ret (case doc of Some d \<Rightarrow> d # docs | None \<Rightarrow> docs)))"

section \<open>Re-indexing\<close>

text \<open>\<open>os.path.basename\<close> and the extension part of \<open>os.path.splitext\<close>.\<close>

definition basename :: "string \<Rightarrow> string" where
  "basename p = rev (takeWhile (\<lambda>c. c \<noteq> CHR ''/'') (rev p))"

definition splitext_ext :: "string \<Rightarrow> string" where
  "splitext_ext name =
     (let suffix = rev (takeWhile (\<lambda>c. c \<noteq> CHR ''.'') (rev name));
          stem = take (length name - length suffix - 1) name
      in if CHR ''.'' \<notin> set name \<or> list_all (\<lambda>c. c = CHR ''.'') stem then []
         else CHR ''.'' # suffix)"

text \<open>
  Line 272 reads the global \<open>tempfile\<close> and line 350 the global \<open>shutil\<close>; the
  module imports neither (lines 1-26), so each read raises \<open>NameError\<close>.
\<close>

definition tempfile_mkdtemp :: "(string, 'f) io" where
  "tempfile_mkdtemp = raise (NameError ''tempfile'')"

definition shutil_rmtree :: "string \<Rightarrow> (unit, 'f) io" where
  "shutil_rmtree path = raise (NameError ''shutil'')"

definition loader_invoke :: "string \<Rightarrow> string \<Rightarrow> ('f document list, 'f) io" where
  "loader_invoke ext content = invoke LoaderLoad 0 (\<lambda>w. (Inr (loader_load w ext content), w))"

text \<open>The loop of lines 276-299 over the listed keys, yielding what it adds to \<open>all_docs\<close>.\<close>

fun load_files :: "int \<Rightarrow> string list \<Rightarrow> ('f document list, 'f) io" where
  "load_files tenant_id [] = ret []"
| "load_files tenant_id (k # keys) =
     (let filename = basename k;
          ext = lower (splitext_ext filename)
      in if ext \<notin> set [''.pdf'', ''.csv'', ''.txt'', ''.docx'', ''.json'']
         then load_files tenant_id keys
         else bind (download_file k) (\<lambda>content.
              bind (loader_invoke ext content) (\<lambda>docs.
              bind (load_files tenant_id keys) (\<lambda>more.
                ret (map (\<lambda>doc. doc\<lparr>doc_metadata :=
                            AList.update ''tenant_id'' (str_int tenant_id)
                              (AList.update ''source'' (''s3://'' @ S3_BUCKET_NAME @ ''/'' @ k)
                                 (doc_metadata doc))\<rparr>) docs
                     @ more)))))"

text \<open>The record of lines 323-331 for one embedded chunk.\<close>

definition vector_of_chunk ::
  "int \<Rightarrow> string \<Rightarrow> 'f list \<Rightarrow> 'f document \<Rightarrow> 'f vector_record" where
  "vector_of_chunk tenant_id k vec chunk =
     \<lparr>key = k, data = vec,
      metadata = [(TENANT_ID_KEY, str_int tenant_id),
                  (SOURCE_KEY, dict_get (doc_metadata chunk) ''source'' ''unknown''),
                  (CONTENT_PREVIEW_KEY, take 500 (page_content chunk))]\<rparr>"

text \<open>
  The loop of lines 322-339 over \<open>zip(vectors, chunks)\<close> with its variables
  \<open>payload\<close> and \<open>total\<close> (here \<open>total_n\<close>), which it yields at the end.
\<close>

fun upload_batches ::
  "int \<Rightarrow> ('f list \<times> 'f document) list \<Rightarrow> 'f vector_record list \<Rightarrow> nat
     \<Rightarrow> ('f vector_record list \<times> nat, 'f) io" where
  "upload_batches tenant_id [] payload total_n = ret (payload, total_n)"
| "upload_batches tenant_id ((vec, chunk) # rest) payload total_n =
     bind uuid4 (\<lambda>u.
       let payload' = payload @ [vector_of_chunk tenant_id u vec chunk] in
       if length payload' \<ge> 500
       then seq (put_vectors payload')
                (upload_batches tenant_id rest [] (total_n + length payload'))
       else upload_batches tenant_id rest payload' total_n)"

definition splitter_split_documents :: "'f document list \<Rightarrow> ('f document list, 'f) io" where
  "splitter_split_documents docs w = (Inr (split_documents w docs), w)"

text \<open>
  The \<open>try\<close> block of lines 274-347. \<open>Inl n\<close> is the \<open>return n\<close> of line 314,
  \<open>Inr total_n\<close> the end of the block.
\<close>

definition index_body :: "int \<Rightarrow> string list option \<Rightarrow> (nat + nat, 'f) io" where
  "index_body tenant_id additional_urls =
     bind (s3_list_tenant_files tenant_id) (\<lambda>keys.
     bind (load_files tenant_id keys) (\<lambda>file_docs.
     bind (s3_load_urls_from_file tenant_id) (\<lambda>file_urls.
     let urls = file_urls @ (case additional_urls of Some us \<Rightarrow> us | None \<Rightarrow> []) in
     bind (if urls \<noteq> []
           then seq (print (''Crawling '' @ str_int (int (length urls)) @ '' URLs...''))
                    (crawl_urls_lightweight urls)
           else ret []) (\<lambda>url_docs.
     bind (splitter_split_documents (file_docs @ url_docs)) (\<lambda>chunks.
       if chunks = [] then seq (print ''No content found'') (ret (Inl 0))
       else
     bind (embed_documents (map page_content chunks)) (\<lambda>vecs.
     bind (upload_batches tenant_id (zip vecs chunks) [] 0) (\<lambda>(payload, total_n).
       if payload \<noteq> []
       then seq (put_vectors payload) (ret (Inr (total_n + length payload)))
       else ret (Inr total_n))))))))"

text \<open>\<open>index_tenant_files\<close> (lines 266-353).\<close>

definition index_tenant_files ::
  "int \<Rightarrow> string list option \<Rightarrow> (nat, 'f::{zero,linorder}) io" where
  "index_tenant_files tenant_id additional_urls =
     seq (print (''Starting indexing for tenant '' @ str_int tenant_id
                  @ '' (S3 Vectors + BackgroundTasks)''))
    (seq ensure_vector_index
    (seq (delete_tenant_vectors tenant_id)
    (bind tempfile_mkdtemp (\<lambda>temp_dir.
     bind (try_finally (index_body tenant_id additional_urls) (shutil_rmtree temp_dir))
       (\<lambda>r. case r of
               Inl n \<Rightarrow> ret n
             | Inr total_n \<Rightarrow>
                 seq (print (''INDEXING COMPLETE: '' @ str_int (int total_n)
                              @ '' vectors added for tenant '' @ str_int tenant_id))
                     (ret total_n))))))"

section \<open>Answering\<close>

record answer =
  answer_text :: string
  sources :: "string list"

text \<open>
  The chain of \<open>get_rag_chain\<close> (lines 427-448) applied to the question: the
  retriever is \<open>retrieve_s3_vectors\<close> with \<open>top_k = 8\<close> (lines 393-397), the answer
  comes from the generation model. The result's sources are
  \<open>list(set(...))\<close> (line 462), whose order Python leaves open.
\<close>

definition llm_invoke :: "string list \<Rightarrow> 'f document list \<Rightarrow> string \<Rightarrow> (string, 'f) io" where
  "llm_invoke history docs question =
     invoke LLMInvoke 0 (\<lambda>w. (Inr (llm w history docs question), w))"

definition rag_chain :: "int \<Rightarrow> string list \<Rightarrow> string \<Rightarrow> (answer, 'f::{zero,linorder}) io" where
  "rag_chain tenant_id history question =
     bind (retrieve_s3_vectors question tenant_id 8) (\<lambda>docs.
     bind (llm_invoke history docs question) (\<lambda>a.
       ret \<lparr>answer_text = a,
            sources = remdups (map (\<lambda>d. dict_get (doc_metadata d) ''source'' ''unknown'') docs)\<rparr>))"

text \<open>
  \<open>answer_question_modern\<close> (lines 450-463). \<open>fixed_answer\<close> is lines 454-458:
  \<open>.strip()\<close> exists on a string only.
\<close>

definition fixed_answer :: "json \<Rightarrow> (answer, 'f) io" where
  "fixed_answer fixed_resp w =
     (let found = (case fixed_resp of
                     JObject d \<Rightarrow> (case map_of d ''answer'' of
                                      Some v \<Rightarrow> v
                                    | None \<Rightarrow> JString (dict_str w d))
                   | JString s \<Rightarrow> JString s
                   | JOther t \<Rightarrow> JString t)
      in case found of
           JString a \<Rightarrow> (Inr \<lparr>answer_text = strip a, sources = [''Fixed Response'']\<rparr>, w)
         | _ \<Rightarrow> (Inl (AttributeError ''strip''), w))"

definition answer_question_modern ::
  "string \<Rightarrow> int \<Rightarrow> string \<Rightarrow> string list \<Rightarrow> (answer, 'f::{zero,linorder}) io" where
  "answer_question_modern question tenant_id user_id context_messages w =
     (let cleaned = lower (strip question) in
      case map_of (FIXED_RESPONSES w) cleaned of
        Some fixed_resp \<Rightarrow> fixed_answer fixed_resp w
      | None \<Rightarrow> rag_chain tenant_id context_messages question w)"

section \<open>Example worlds\<close>

text \<open>
  A world with nothing in it and no fault scheduled, over which the examples below
  are built: the embedding of a text is its length, all distances are equal, a loader
  yields one document with the file's content, the splitter keeps documents whole.
\<close>

definition world0 :: "nat world" where
  "world0 =
     \<lparr>faults = (\<lambda>c n. None), calls = [], stdout = [], sqs_queue = [], s3_objects = [],
      vector_buckets = [], vector_index = None, index_vectors = [],
      distance = (\<lambda>a b. 0), uuid_source = (\<lambda>n. ''uuid-'' @ digits n), uuid_count = 0,
      embed = (\<lambda>s. [length s]), web = (\<lambda>u. (404, [])), html_text = (\<lambda>h. h),
      loader_load = (\<lambda>ext content.
        [\<lparr>page_content = content, doc_metadata = [], similarity_score = None\<rparr>]),
      split_documents = (\<lambda>ds. ds), llm = (\<lambda>h ds q. ''generated''),
      FIXED_RESPONSES = [], dict_str = (\<lambda>d. ''{...}'')\<rparr>"

text \<open>The queue rejects the first message.\<close>

definition world_sqs_down :: "nat world" where
  "world_sqs_down =
     world0\<lparr>faults := (\<lambda>c n. if c = SendMessage \<and> n = 0
                              then Some (OtherException ''queue unreachable'') else None)\<rparr>"

text \<open>The fixed-response table of the spec's scenario, and one with a padded answer.\<close>

definition world_hours :: "nat world" where
  "world_hours = world0\<lparr>FIXED_RESPONSES := [(''hours'', JString ''We're open 9-5.'')]\<rparr>"

definition world_padded :: "nat world" where
  "world_padded =
     world0\<lparr>FIXED_RESPONSES := [(''hi'', JString '' hello ''),
                                 (''bye'', JObject [(''answer'', JString ''See you.'')])]\<rparr>"

text \<open>\<open>fail_call c n e w\<close> is \<open>w\<close> with the \<open>n\<close>-th call of kind \<open>c\<close> failing with \<open>e\<close>.\<close>

definition fail_call :: "call \<Rightarrow> nat \<Rightarrow> exn \<Rightarrow> 'f world \<Rightarrow> 'f world" where
  "fail_call c n e w =
     w\<lparr>faults := (\<lambda>c' n'. if c' = c \<and> n' = n then Some e else faults w c' n')\<rparr>"

text \<open>The vector bucket exists; the index does not.\<close>

definition world_bucket :: "nat world" where
  "world_bucket = world0\<lparr>vector_buckets := [S3_VECTORS_BUCKET_NAME]\<rparr>"

text \<open>
  Bucket and index exist; the index holds two records of tenant 7, one of them
  without text, and one record of tenant 8.
\<close>

definition rec7a :: "nat vector_record" where
  "rec7a = \<lparr>key = ''k1'', data = [1],
            metadata = [(''tenant_id'', ''7''), (''source'', ''s3://rag-chat-uploads/a.pdf''),
                        (''content_preview'', ''opening hours'')]\<rparr>"

definition rec7b :: "nat vector_record" where
  "rec7b = \<lparr>key = ''k2'', data = [2], metadata = [(''tenant_id'', ''7'')]\<rparr>"

definition rec8 :: "nat vector_record" where
  "rec8 = \<lparr>key = ''k3'', data = [1],
           metadata = [(''tenant_id'', ''8''), (''source'', ''s3://rag-chat-uploads/b.pdf''),
                       (''content_preview'', ''secret of tenant 8'')]\<rparr>"

definition world_ready :: "nat world" where
  "world_ready =
     world0\<lparr>vector_buckets := [S3_VECTORS_BUCKET_NAME],
            vector_index := Some the_index_config,
            index_vectors := [rec8, rec7a, rec7b]\<rparr>"

text \<open>
  The predicates of the two handlers of \<open>ensure_vector_index\<close> on an exception: the
  codes after which the probe goes on to create the index (line 191) and the codes
  the outer handler takes as success (line 210).
\<close>

definition probe_miss :: "exn \<Rightarrow> bool" where
  "probe_miss e =
     (case e of ClientError c \<Rightarrow> c \<in> set [''NotFoundException'', ''ValidationException'']
              | _ \<Rightarrow> False)"

definition conflict_code :: "exn \<Rightarrow> bool" where
  "conflict_code e =
     (case e of ClientError c \<Rightarrow> c \<in> set [''ConflictException'', ''ResourceInUseException'']
              | _ \<Rightarrow> False)"

text \<open>
  The next query meets an index that is not there: the backend has none, or it
  answers with the code lines 260 and 373 expect.
\<close>

definition index_not_ready :: "'f world \<Rightarrow> bool" where
  "index_not_ready w =
     (case faults w QueryVectors (occurrences w QueryVectors) of
        None \<Rightarrow> vector_index w = None
      | Some e \<Rightarrow> e = ClientError ''ResourceNotFoundException'')"

text \<open>
  Races and refusals: the bucket is created by someone else between listing and
  creation; the index is created by someone else between probe and creation; the
  creation of the index is refused.
\<close>

definition world_bucket_race :: "nat world" where
  "world_bucket_race = fail_call CreateVectorBucket 0 (ClientError ''ConflictException'') world0"

definition world_index_race :: "nat world" where
  "world_index_race = fail_call CreateIndex 0 (ClientError ''ConflictException'') world_bucket"

definition world_index_denied :: "nat world" where
  "world_index_denied =
     fail_call CreateIndex 0 (ClientError ''AccessDeniedException'') world_bucket"



text \<open>
  Tenant 7 has registered one URL and nothing else; tenant 7 has uploaded one PDF and
  registered no URL, with bucket and index in place.
\<close>

definition world_urls :: "nat world" where
  "world_urls =
     world0\<lparr>s3_objects := [(''knowledge_base/7/urls.txt'',
                               ''https://example.com'' @ [CHR 0x0A])]\<rparr>"

definition world_pdf :: "nat world" where
  "world_pdf =
     world0\<lparr>vector_buckets := [S3_VECTORS_BUCKET_NAME],
            vector_index := Some the_index_config,
            s3_objects := [(''knowledge_base/7/doc.pdf'', ''We are open from 9 to 5.'')]\<rparr>"

text \<open>The records of the index that are tagged with a tenant's id.\<close>

definition tenant_records :: "'f world \<Rightarrow> int \<Rightarrow> 'f vector_record list" where
  "tenant_records w t =
     filter (\<lambda>r. map_of (metadata r) TENANT_ID_KEY = Some (str_int t)) (index_vectors w)"



text \<open>Whether an exception is a \<open>ClientError\<close>, the class lines 258 and 371 catch.\<close>

definition is_ClientError :: "exn \<Rightarrow> bool" where
  "is_ClientError e = (case e of ClientError c \<Rightarrow> True | _ \<Rightarrow> False)"

text \<open>
  The index is ready; the backend refuses the first deletion with a \<open>ClientError\<close>;
  the first query fails below the client, with an exception that is no \<open>ClientError\<close>.
\<close>

definition world_delete_fault :: "nat world" where
  "world_delete_fault =
     fail_call DeleteVectors 0 (ClientError ''ServiceUnavailableException'') world_ready"


text \<open>
  Tenant 7 has 101 records, which is more than three pages of 30 and more than one
  batch of 100; tenant 8 has one.
\<close>

definition rec7_n :: "nat \<Rightarrow> nat vector_record" where
  "rec7_n i = \<lparr>key = ''k7-'' @ digits i, data = [i], metadata = [(''tenant_id'', ''7'')]\<rparr>"

definition world_many :: "nat world" where
  "world_many =
     world0\<lparr>vector_buckets := [S3_VECTORS_BUCKET_NAME],
            vector_index := Some the_index_config,
            index_vectors := rec8 # map rec7_n [0..<101]\<rparr>"

section \<open>Unfolding rules\<close>

lemmas io_defs = bind_def seq_def ret_def raise_def except_ClientError_def except_Exception_def
  print_def invoke_def occurrences_def Let_def

lemmas backend_defs = list_vector_buckets_def create_vector_bucket_def create_index_def
  put_vectors_def delete_vectors_def query_vectors_def embed_query_def ranked_def

lemmas string_defs = lower_def strip_def isspace_def lower_char_def

lemmas rec_defs = rec7a_def rec7b_def rec8_def

section \<open>The re-index trigger never raises\<close>

text \<open>
  C10. \<open>trigger_reindexing\<close> returns normally in every world, whatever the queue
  does; when the send fails, no message is enqueued and the index is untouched, so
  the lost signal shows only in the log.
\<close>

theorem trigger_reindexing_never_raises:
  "fst (trigger_reindexing tenant_id w) = Inr () \<and>
   (faults w SendMessage (occurrences w SendMessage) \<noteq> None \<longrightarrow>
      sqs_queue (snd (trigger_reindexing tenant_id w)) = sqs_queue w \<and>
      index_vectors (snd (trigger_reindexing tenant_id w)) = index_vectors w)"
  by (auto simp: trigger_reindexing_def except_Exception_def bind_def seq_def uuid4_def
        occurrences_def sqs_send_message_def invoke_def print_def Let_def
      split: option.splits sum.splits prod.splits)

theorem trigger_reindexing_never_raises_witness:
  "faults world_sqs_down SendMessage (occurrences world_sqs_down SendMessage) \<noteq> None \<and>
   fst (trigger_reindexing 7 world_sqs_down) = Inr () \<and>
   sqs_queue (snd (trigger_reindexing 7 world_sqs_down)) = []"
  using trigger_reindexing_never_raises [of 7 world_sqs_down]
  by (simp add: world_sqs_down_def world0_def occurrences_def)

section \<open>Fixed responses\<close>

text \<open>
  C7, as stated, fails: the answer returned on a hit is not the stored value but the
  stored value stripped of surrounding whitespace (line 458).
\<close>

theorem fixed_response_not_verbatim:
  "map_of (FIXED_RESPONSES world_padded) (lower (strip ''Hi'')) = Some (JString '' hello '') \<and>
   fst (answer_question_modern ''Hi'' 7 ''default'' [] world_padded)
     \<noteq> Inr \<lparr>answer_text = '' hello '', sources = [''Fixed Response'']\<rparr>"
  by (simp add: answer_question_modern_def fixed_answer_def world_padded_def world0_def
        string_defs)

text \<open>
  C7, amended. When the trimmed, lowercased question is a key of the table whose
  value is a string, or an object whose \<open>answer\<close> is a string, the result is that
  string stripped of surrounding whitespace with sources \<open>["Fixed Response"]\<close>, and
  the world is left as it was: no embedding, no call to the vector backend.
\<close>

theorem fixed_response_override:
  assumes "map_of (FIXED_RESPONSES w) (lower (strip question)) = Some v"
    and "v = JString s \<or> (\<exists>d. v = JObject d \<and> map_of d ''answer'' = Some (JString s))"
  shows "answer_question_modern question tenant_id user_id context_messages w =
           (Inr \<lparr>answer_text = strip s, sources = [''Fixed Response'']\<rparr>, w)"
  using assms by (auto simp: answer_question_modern_def fixed_answer_def Let_def)

theorem fixed_response_override_witness:
  "answer_question_modern ''Bye'' 7 ''default'' [] world_padded =
     (Inr \<lparr>answer_text = ''See you.'', sources = [''Fixed Response'']\<rparr>, world_padded)"
  using fixed_response_override
    [of world_padded "''Bye''" "JObject [(''answer'', JString ''See you.'')]" "''See you.''"
        7 "''default''" "[]"]
  by (simp add: world_padded_def world0_def string_defs)

text \<open>
  C8, as stated, fails: trimming and lowercasing turn \<open>"Hours?"\<close> into
  \<open>"hours?"\<close>, which is not the key \<open>"hours"\<close>; the question goes through
  retrieval and generation, and the embedding and the vector backend are called.
\<close>

theorem hours_question_mark_misses:
  "lower (strip ''Hours?'') = ''hours?'' \<and>
   fst (answer_question_modern ''Hours?'' 7 ''default'' [] world_hours)
     = Inr \<lparr>answer_text = ''generated'', sources = []\<rparr> \<and>
   calls (snd (answer_question_modern ''Hours?'' 7 ''default'' [] world_hours))
     = [(ListVectorBuckets, 0), (CreateVectorBucket, 0), (PutVectors, 1), (CreateIndex, 0),
        (EmbedQuery, 1), (QueryVectors, 8), (LLMInvoke, 0)]"
  by (simp add: answer_question_modern_def rag_chain_def retrieve_s3_vectors_def
      ensure_vector_index_def ensure_bucket_def probe_index_def create_the_index_def
      on_ClientError_def llm_invoke_def io_defs backend_defs
      world_hours_def world0_def string_defs S3_VECTORS_BUCKET_NAME_def)

text \<open>
  C8, amended. With the key \<open>"hours"\<close> mapped to \<open>"We're open 9-5."\<close>, every question
  whose trimmed, lowercased text is exactly \<open>"hours"\<close> gets exactly that answer with
  sources \<open>["Fixed Response"]\<close>, for any tenant, and the world is left as it was.
\<close>

theorem fixed_response_hours:
  assumes "map_of (FIXED_RESPONSES w) ''hours'' = Some (JString ''We're open 9-5.'')"
    and "lower (strip question) = ''hours''"
  shows "answer_question_modern question tenant_id user_id context_messages w =
           (Inr \<lparr>answer_text = ''We're open 9-5.'', sources = [''Fixed Response'']\<rparr>, w)"
  using assms by (simp add: answer_question_modern_def fixed_answer_def strip_def isspace_def)

theorem fixed_response_hours_witness:
  "answer_question_modern '' Hours'' 7 ''default'' [] world_hours =
     (Inr \<lparr>answer_text = ''We're open 9-5.'', sources = [''Fixed Response'']\<rparr>, world_hours)"
  using fixed_response_hours [of world_hours "'' Hours''" 7 "''default''" "[]"]
  by (simp add: world_hours_def world0_def string_defs)

section \<open>Ensuring the index\<close>

lemma except_ClientError_Inr [simp]:
  "m w = (Inr x, w') \<Longrightarrow> except_ClientError m h w = (Inr x, w')"
  by (simp add: except_ClientError_def)

lemma except_ClientError_Inl:
  "m w = (Inl e, w') \<Longrightarrow>
   except_ClientError m h w = (case e of ClientError c \<Rightarrow> h c w' | _ \<Rightarrow> (Inl e, w'))"
  by (simp add: except_ClientError_def split: exn.splits)

lemma on_ClientError_fst:
  "fst (on_ClientError c w) = (if conflict_code (ClientError c) then Inr () else Inl (ClientError c))"
  by (simp add: on_ClientError_def conflict_code_def io_defs)

lemma handled_fst:
  "m w = (Inl e, w') \<Longrightarrow>
   fst (except_ClientError m on_ClientError w) = (if conflict_code e then Inr () else Inl e)"
  by (cases e) (simp_all add: except_ClientError_def on_ClientError_fst conflict_code_def)

lemma probe_index_put_fail:
  "put_vectors [ping] w1 = (Inl e, w2) \<Longrightarrow>
   probe_index w1 = (if probe_miss e then (Inr False, w2) else (Inl e, w2))"
  by (cases e) (auto simp: probe_index_def probe_miss_def except_ClientError_def bind_def seq_def ret_def raise_def)

lemma probe_index_delete_fail:
  "put_vectors [ping] w1 = (Inr (), w2) \<Longrightarrow> delete_vectors [''ping''] w2 = (Inl e, w3) \<Longrightarrow>
   probe_index w1 = (if probe_miss e then (Inr False, w3) else (Inl e, w3))"
  by (cases e) (auto simp: probe_index_def probe_miss_def except_ClientError_def bind_def seq_def ret_def raise_def)

lemma probe_index_ok:
  "put_vectors [ping] w1 = (Inr (), w2) \<Longrightarrow> delete_vectors [''ping''] w2 = (Inr (), w3) \<Longrightarrow>
   probe_index w1 = (Inr True, w3\<lparr>stdout := stdout w3 @ [''Index '' @ S3_VECTORS_INDEX_NAME @ '' exists and ready'']\<rparr>)"
  by (auto simp: probe_index_def except_ClientError_def bind_def seq_def ret_def raise_def print_def)

lemma create_index_config:
  "create_index cfg w = (Inr (), w') \<Longrightarrow> vector_index w' = Some cfg"
  by (auto simp: create_index_def invoke_def Let_def split: option.splits if_splits)

lemma create_the_index_config:
  "create_the_index w = (Inr (), w') \<Longrightarrow> vector_index w' = Some the_index_config"
  by (auto simp: create_the_index_def bind_def seq_def print_def split: sum.splits prod.splits
      dest!: create_index_config)

text \<open>
  C9, amended. The probe is a write and a delete of the sentinel. If both go through,
  the function returns and nothing is created after the probe. If the write fails with
  a not-found or invalid code, the index is created with dimension 1024 and the cosine
  metric. A failure of the creation with a conflict or in-use code is a normal return.
  Beyond the claim as stated: a conflict or in-use code is a normal return from
  whichever call raised it (bucket listing or creation, the probe, the creation); any
  other exception that the probe does not absorb is raised to the caller unchanged.
\<close>

theorem ensure_vector_index_contract:
  "(ensure_bucket w = (Inr (), w1) \<longrightarrow> put_vectors [ping] w1 = (Inr (), w2) \<longrightarrow>
      delete_vectors [''ping''] w2 = (Inr (), w3) \<longrightarrow>
        fst (ensure_vector_index w) = Inr () \<and>
        calls (snd (ensure_vector_index w)) = calls w3 \<and>
        vector_index (snd (ensure_vector_index w)) = vector_index w3) \<and>
   (ensure_bucket w = (Inr (), w1) \<longrightarrow> put_vectors [ping] w1 = (Inl e, w2) \<longrightarrow> probe_miss e \<longrightarrow>
      create_the_index w2 = (Inr (), w3) \<longrightarrow>
        ensure_vector_index w = (Inr (), w3) \<and>
        (\<exists>cfg. vector_index w3 = Some cfg \<and> dimension cfg = 1024 \<and>
               distanceMetric cfg = ''cosine'')) \<and>
   (ensure_bucket w = (Inr (), w1) \<longrightarrow> put_vectors [ping] w1 = (Inl e, w2) \<longrightarrow> probe_miss e \<longrightarrow>
      create_the_index w2 = (Inl e', w3) \<longrightarrow>
        fst (ensure_vector_index w) = (if conflict_code e' then Inr () else Inl e')) \<and>
   (ensure_bucket w = (Inl e, w1) \<longrightarrow>
        fst (ensure_vector_index w) = (if conflict_code e then Inr () else Inl e)) \<and>
   (ensure_bucket w = (Inr (), w1) \<longrightarrow> put_vectors [ping] w1 = (Inl e, w2) \<longrightarrow> \<not> probe_miss e \<longrightarrow>
        fst (ensure_vector_index w) = (if conflict_code e then Inr () else Inl e)) \<and>
   (ensure_bucket w = (Inr (), w1) \<longrightarrow> put_vectors [ping] w1 = (Inr (), w2) \<longrightarrow>
      delete_vectors [''ping''] w2 = (Inl e, w3) \<longrightarrow> \<not> probe_miss e \<longrightarrow>
        fst (ensure_vector_index w) = (if conflict_code e then Inr () else Inl e))"
proof (intro conjI impI)
  assume a: "ensure_bucket w = (Inr (), w1)" "put_vectors [ping] w1 = (Inr (), w2)"
    "delete_vectors [''ping''] w2 = (Inr (), w3)"
  have "ensure_vector_index w = (Inr (), w3\<lparr>stdout := stdout w3 @ [''Index '' @ S3_VECTORS_INDEX_NAME @ '' exists and ready'']\<rparr>)"
    unfolding ensure_vector_index_def
    by (rule except_ClientError_Inr) (simp add: seq_def bind_def a probe_index_ok [OF a(2,3)] ret_def)
  then show "fst (ensure_vector_index w) = Inr ()"
    "calls (snd (ensure_vector_index w)) = calls w3"
    "vector_index (snd (ensure_vector_index w)) = vector_index w3"
    by simp_all
next
  assume a: "ensure_bucket w = (Inr (), w1)" "put_vectors [ping] w1 = (Inl e, w2)" "probe_miss e"
    "create_the_index w2 = (Inr (), w3)"
  show "ensure_vector_index w = (Inr (), w3)"
    unfolding ensure_vector_index_def
    by (rule except_ClientError_Inr) (simp add: seq_def bind_def a probe_index_put_fail [OF a(2)])
  show "\<exists>cfg. vector_index w3 = Some cfg \<and> dimension cfg = 1024 \<and> distanceMetric cfg = ''cosine''"
    using create_the_index_config [OF a(4)] by (simp add: the_index_config_def)
next
  assume a: "ensure_bucket w = (Inr (), w1)" "put_vectors [ping] w1 = (Inl e, w2)" "probe_miss e"
    "create_the_index w2 = (Inl e', w3)"
  show "fst (ensure_vector_index w) = (if conflict_code e' then Inr () else Inl e')"
    unfolding ensure_vector_index_def
    by (rule handled_fst) (simp add: seq_def bind_def a probe_index_put_fail [OF a(2)])
next
  assume a: "ensure_bucket w = (Inl e, w1)"
  show "fst (ensure_vector_index w) = (if conflict_code e then Inr () else Inl e)"
    unfolding ensure_vector_index_def
    by (rule handled_fst) (simp add: seq_def bind_def a)
next
  assume a: "ensure_bucket w = (Inr (), w1)" "put_vectors [ping] w1 = (Inl e, w2)" "\<not> probe_miss e"
  show "fst (ensure_vector_index w) = (if conflict_code e then Inr () else Inl e)"
    unfolding ensure_vector_index_def
    by (rule handled_fst) (simp add: seq_def bind_def a probe_index_put_fail [OF a(2)])
next
  assume a: "ensure_bucket w = (Inr (), w1)" "put_vectors [ping] w1 = (Inr (), w2)"
    "delete_vectors [''ping''] w2 = (Inl e, w3)" "\<not> probe_miss e"
  show "fst (ensure_vector_index w) = (if conflict_code e then Inr () else Inl e)"
    unfolding ensure_vector_index_def
    by (rule handled_fst) (simp add: seq_def bind_def a probe_index_delete_fail [OF a(2,3)])
qed


lemmas ensure_defs = ensure_vector_index_def ensure_bucket_def probe_index_def
  create_the_index_def on_ClientError_def ping_def

lemmas world_defs = world0_def world_bucket_def world_ready_def fail_call_def
  S3_VECTORS_BUCKET_NAME_def

text \<open>
  C9, as stated, fails on "any other failure is propagated": when the creation of the
  bucket fails with a conflict code, which is neither a failed probe write nor a
  failed index creation, the function returns normally, without having probed or
  created the index.
\<close>

theorem bucket_conflict_swallowed:
  "fst (ensure_vector_index world_bucket_race) = Inr () \<and>
   calls (snd (ensure_vector_index world_bucket_race))
     = [(ListVectorBuckets, 0), (CreateVectorBucket, 0)] \<and>
   vector_index (snd (ensure_vector_index world_bucket_race)) = None"
  by (simp add: world_bucket_race_def ensure_defs io_defs backend_defs world_defs)

lemma run_eq: "fst (m w) = r \<Longrightarrow> m w = (r, snd (m w))"
  by (cases "m w") simp

theorem ensure_vector_index_contract_witness:
  "(fst (ensure_vector_index world_ready) = Inr () \<and>
    (CreateIndex, 0) \<notin> set (calls (snd (ensure_vector_index world_ready)))) \<and>
   (fst (ensure_vector_index world0) = Inr () \<and>
    (\<exists>cfg. vector_index (snd (ensure_vector_index world0)) = Some cfg \<and>
           dimension cfg = 1024 \<and> distanceMetric cfg = ''cosine'')) \<and>
   fst (ensure_vector_index world_index_race) = Inr () \<and>
   fst (ensure_vector_index world_index_denied) = Inl (ClientError ''AccessDeniedException'')"
proof -
  let ?b = "\<lambda>w::nat world. snd (ensure_bucket w)"
  let ?p = "\<lambda>w::nat world. snd (put_vectors [ping] (?b w))"
  let ?d = "\<lambda>w::nat world. snd (delete_vectors [''ping''] (?p w))"
  let ?c = "\<lambda>w::nat world. snd (create_the_index (?p w))"
  let ?nf = "ClientError ''NotFoundException''"
  have a1: "ensure_bucket world_ready = (Inr (), ?b world_ready)"
    by (rule run_eq) (simp add: ensure_defs io_defs backend_defs world_defs)
  have a2: "put_vectors [ping] (?b world_ready) = (Inr (), ?p world_ready)"
    by (rule run_eq) (simp add: ensure_defs io_defs backend_defs world_defs)
  have a3: "delete_vectors [''ping''] (?p world_ready) = (Inr (), ?d world_ready)"
    by (rule run_eq) (simp add: ensure_defs io_defs backend_defs world_defs)
  have a4: "(CreateIndex, 0) \<notin> set (calls (?d world_ready))"
    by (simp add: ensure_defs io_defs backend_defs world_defs)
  have b1: "ensure_bucket world0 = (Inr (), ?b world0)"
    by (rule run_eq) (simp add: ensure_defs io_defs backend_defs world_defs)
  have b2: "put_vectors [ping] (?b world0) = (Inl ?nf, ?p world0)"
    by (rule run_eq) (simp add: ensure_defs io_defs backend_defs world_defs)
  have b3: "create_the_index (?p world0) = (Inr (), ?c world0)"
    by (rule run_eq) (simp add: ensure_defs io_defs backend_defs world_defs)
  have c1: "ensure_bucket world_index_race = (Inr (), ?b world_index_race)"
    by (rule run_eq) (simp add: world_index_race_def ensure_defs io_defs backend_defs world_defs)
  have c2: "put_vectors [ping] (?b world_index_race) = (Inl ?nf, ?p world_index_race)"
    by (rule run_eq) (simp add: world_index_race_def ensure_defs io_defs backend_defs world_defs)
  have c3: "create_the_index (?p world_index_race)
              = (Inl (ClientError ''ConflictException''), ?c world_index_race)"
    by (rule run_eq) (simp add: world_index_race_def ensure_defs io_defs backend_defs world_defs)
  have d1: "ensure_bucket world_index_denied = (Inr (), ?b world_index_denied)"
    by (rule run_eq) (simp add: world_index_denied_def ensure_defs io_defs backend_defs world_defs)
  have d2: "put_vectors [ping] (?b world_index_denied) = (Inl ?nf, ?p world_index_denied)"
    by (rule run_eq) (simp add: world_index_denied_def ensure_defs io_defs backend_defs world_defs)
  have d3: "create_the_index (?p world_index_denied)
              = (Inl (ClientError ''AccessDeniedException''), ?c world_index_denied)"
    by (rule run_eq) (simp add: world_index_denied_def ensure_defs io_defs backend_defs world_defs)
  have m: "probe_miss ?nf" by (simp add: probe_miss_def)
  note A = ensure_vector_index_contract
    [of world_ready "?b world_ready" "?p world_ready" "?d world_ready",
     THEN conjunct1, rule_format, OF a1 a2 a3]
  note B = ensure_vector_index_contract
    [of world0 "?b world0" "?p world0" "?c world0" ?nf,
     THEN conjunct2, THEN conjunct1, rule_format, OF b1 b2 m b3]
  note C = ensure_vector_index_contract
    [of world_index_race "?b world_index_race" "?p world_index_race" "?c world_index_race" ?nf
        "ClientError ''ConflictException''",
     THEN conjunct2, THEN conjunct2, THEN conjunct1, rule_format, OF c1 c2 m c3]
  note D = ensure_vector_index_contract
    [of world_index_denied "?b world_index_denied" "?p world_index_denied"
        "?c world_index_denied" ?nf "ClientError ''AccessDeniedException''",
     THEN conjunct2, THEN conjunct2, THEN conjunct1, rule_format, OF d1 d2 m d3]
  from A a4 have "fst (ensure_vector_index world_ready) = Inr () \<and>
    (CreateIndex, 0) \<notin> set (calls (snd (ensure_vector_index world_ready)))" by simp
  moreover from B have "fst (ensure_vector_index world0) = Inr () \<and>
    (\<exists>cfg. vector_index (snd (ensure_vector_index world0)) = Some cfg \<and>
           dimension cfg = 1024 \<and> distanceMetric cfg = ''cosine'')" by simp
  moreover from C have "fst (ensure_vector_index world_index_race) = Inr ()"
    by (simp add: conflict_code_def)
  moreover from D
  have "fst (ensure_vector_index world_index_denied) = Inl (ClientError ''AccessDeniedException'')"
    by (simp add: conflict_code_def)
  ultimately show ?thesis by blast
qed

section \<open>Unbound names in acquisition and re-indexing\<close>

lemma str_int_7: "str_int 7 = ''7''"
  by (simp add: str_int_def digits.simps digit_char_def)

text \<open>
  C3. The code does not do what the claim says: with one URL in the tenant's
  \<open>urls.txt\<close>, whose only line is that URL, \<open>s3_load_urls_from_file\<close> raises
  \<open>NameError\<close> for \<open>is_valid_url\<close> instead of returning the line; only the case
  of the missing object comes out as claimed.
\<close>

theorem urls_file_raises_NameError:
  "splitlines (''https://example.com'' @ [CHR 0x0A]) = [''https://example.com''] \<and>
   fst (s3_load_urls_from_file 7 world_urls) = Inl (NameError ''is_valid_url'') \<and>
   fst (s3_load_urls_from_file 7 world0) = Inr []"
  by (simp add: s3_load_urls_from_file_def get_object_def is_valid_url_def io_defs
        world_urls_def world0_def str_int_7 S3_PREFIX_KNOWLEDGE_def splitlines_def
        is_linebreak_def string_defs)

lemma index_tenant_files_never_returns:
  "fst (index_tenant_files tenant_id additional_urls w) \<noteq> Inr n"
  by (auto simp: index_tenant_files_def tempfile_mkdtemp_def seq_def bind_def raise_def
      split: prod.splits sum.splits)

text \<open>
  C2. The code does not do what the claim says: for a tenant with one uploaded PDF,
  \<open>index_tenant_files\<close> ensures the index and scans for the tenant's vectors, and
  then raises \<open>NameError\<close> for \<open>tempfile\<close>: storage is never listed, nothing is
  embedded or upserted, no count is returned.
\<close>

theorem reindex_raises_NameError:
  "fst (index_tenant_files 7 None world_pdf) = Inl (NameError ''tempfile'') \<and>
   calls (snd (index_tenant_files 7 None world_pdf))
     = [(ListVectorBuckets, 0), (PutVectors, 1), (DeleteVectors, 1), (QueryVectors, 30)] \<and>
   index_vectors (snd (index_tenant_files 7 None world_pdf)) = []"
  by (simp add: index_tenant_files_def tempfile_mkdtemp_def delete_tenant_vectors_def
        scan_keys.simps ensure_defs io_defs backend_defs world_pdf_def world_defs str_int_7
        TENANT_ID_KEY_def)

section \<open>Deleting a tenant's vectors\<close>

lemma query_ok:
  assumes "vector_index w = Some cfg" and "\<forall>n. faults w QueryVectors n = None"
  shows "query_vectors q k flt rm rd tok w =
           (Inr \<lparr>vectors = map (to_item w q rm rd)
                     (take k (drop (case tok of None \<Rightarrow> 0 | Some n \<Rightarrow> n) (ranked w q flt))),
                 nextToken = (if (case tok of None \<Rightarrow> 0 | Some n \<Rightarrow> n) + k < length (ranked w q flt)
                              then Some ((case tok of None \<Rightarrow> 0 | Some n \<Rightarrow> n) + k) else None)\<rparr>,
            w\<lparr>calls := calls w @ [(QueryVectors, k)]\<rparr>)"
  using assms by (simp add: query_vectors_def invoke_def Let_def ranked_def to_item_def)

lemma ranked_calls [simp]: "ranked (w\<lparr>calls := c\<rparr>) q flt = ranked w q flt"
  by (simp add: ranked_def)

lemma item_key_to_item [simp]: "item_key (to_item w q rm rd r) = key r"
  by (simp add: to_item_def)

lemma pages_last:
  assumes "\<not> off + 30 < m"
  shows "(m - off - 1) div (30::nat) = 0"
proof -
  from assms have "m - off - 1 < 30" by linarith
  then show ?thesis by (rule div_less)
qed

lemma batches_done:
  assumes "\<not> i < m"
  shows "(m - i + 99) div (100::nat) = 0"
proof -
  from assms have "m - i + 99 < 100" by linarith
  then show ?thesis by (rule div_less)
qed

lemma pages_step:
  assumes "off + 30 < m"
  shows "Suc ((m - (off + 30) - 1) div 30) = (m - off - 1) div (30::nat)"
proof -
  from assms have "m - off - 1 = (m - (off + 30) - 1) + 30" by linarith
  then have "(m - off - 1) div 30 = ((m - (off + 30) - 1) + 30) div 30" by (rule arg_cong)
  also have "\<dots> = (m - (off + 30) - 1) div 30 + 1" by (rule div_add_self2) simp
  finally show ?thesis by linarith
qed

lemma batches_step:
  assumes "i < m"
  shows "Suc ((m - (i + 100) + 99) div 100) = (m - i + 99) div (100::nat)"
proof (cases "i + 100 \<le> m")
  case True
  then have "m - i + 99 = (m - (i + 100) + 99) + 100" by linarith
  then have "(m - i + 99) div 100 = ((m - (i + 100) + 99) + 100) div 100" by (rule arg_cong)
  also have "\<dots> = (m - (i + 100) + 99) div 100 + 1" by (rule div_add_self2) simp
  finally show ?thesis by linarith
next
  case False
  with assms have a: "m - (i + 100) + 99 < 100" and b: "m - i + 99 = (m - i - 1) + 100"
    and c: "m - i - 1 < 100" by linarith+
  from b have "(m - i + 99) div 100 = ((m - i - 1) + 100) div 100" by (rule arg_cong)
  also have "\<dots> = (m - i - 1) div 100 + 1" by (rule div_add_self2) simp
  also have "\<dots> = 1" using c by (simp only: div_less)
  finally show ?thesis using a by (simp only: div_less)
qed

lemma scan_keys_all:
  assumes "vector_index w = Some cfg" and "\<forall>n. faults w QueryVectors n = None"
  shows "scan_keys t ks tok w =
           (Inr (ks @ map key (drop (case tok of None \<Rightarrow> 0 | Some n \<Rightarrow> n)
                                 (ranked w zero_vector (Filter_op TENANT_ID_KEY ''eq'' (str_int t))))),
            w\<lparr>calls := calls w @
                 replicate
                   (Suc ((length (ranked w zero_vector (Filter_op TENANT_ID_KEY ''eq'' (str_int t)))
                          - (case tok of None \<Rightarrow> 0 | Some n \<Rightarrow> n) - 1) div 30))
                   (QueryVectors, 30)\<rparr>)"
  using assms
proof (induction t ks tok w rule: scan_keys.induct)
  case (1 t ks tok w)
  let ?flt = "Filter_op TENANT_ID_KEY ''eq'' (str_int t)"
  let ?rs = "ranked w zero_vector ?flt"
  let ?off = "case tok of None \<Rightarrow> 0 | Some n \<Rightarrow> n"
  let ?w' = "w\<lparr>calls := calls w @ [(QueryVectors, 30)]\<rparr>"
  note q = query_ok [OF "1.prems", of zero_vector 30 ?flt False False tok]
  show ?case
  proof (cases "?off + 30 < length ?rs")
    case False
    then have "take 30 (drop ?off ?rs) = drop ?off ?rs" by simp
    with False q have "scan_keys t ks tok w = (Inr (ks @ map key (drop ?off ?rs)), ?w')"
      by (simp add: scan_keys.simps [of t ks tok w])
    then show ?thesis by (simp only: pages_last [OF False] replicate.simps)
  next
    case True
    have p: "vector_index ?w' = Some cfg" "\<forall>n. faults ?w' QueryVectors n = None"
      using "1.prems" by simp_all
    let ?resp = "\<lparr>vectors = map (to_item w zero_vector False False) (take 30 (drop ?off ?rs)),
                   nextToken = (if ?off + 30 < length ?rs then Some (?off + 30) else None)\<rparr>"
    let ?k = "(length ?rs - (?off + 30) - 1) div 30"
    have nt: "nextToken ?resp = Some (?off + 30)" using True by simp
    have vk: "map item_key (vectors ?resp) = map key (take 30 (drop ?off ?rs))"
      by (simp add: comp_def)
    have rk: "ranked ?w' zero_vector (Filter_op TENANT_ID_KEY ''eq'' (str_int t)) = ?rs"
      by (rule ranked_calls)
    have k: "scan_keys t (ks @ map item_key (vectors ?resp)) (Some (?off + 30)) ?w'
        = (Inr ((ks @ map item_key (vectors ?resp)) @ map key (drop (?off + 30) ?rs)),
           ?w'\<lparr>calls := calls ?w' @ replicate (Suc ?k) (QueryVectors, 30)\<rparr>)"
      using "1.IH" [OF q [symmetric] refl refl nt p] unfolding rk option.case .
    have "drop (?off + 30) ?rs = drop 30 (drop ?off ?rs)"
      by (simp add: add.commute)
    then have "take 30 (drop ?off ?rs) @ drop (?off + 30) ?rs = drop ?off ?rs"
      by (simp only: append_take_drop_id)
    then have "map key (take 30 (drop ?off ?rs)) @ map key (drop (?off + 30) ?rs)
                 = map key (drop ?off ?rs)"
      by (simp only: map_append [symmetric])
    then have e: "(ks @ map key (take 30 (drop ?off ?rs))) @ map key (drop (?off + 30) ?rs)
                   = ks @ map key (drop ?off ?rs)"
      by (simp only: append_assoc)
    have c: "?w'\<lparr>calls := calls ?w' @ replicate (Suc ?k) (QueryVectors, 30)\<rparr>
              = w\<lparr>calls := calls w @ replicate (Suc (Suc ?k)) (QueryVectors, 30)\<rparr>"
      by simp
    have "scan_keys t ks tok w
            = scan_keys t (ks @ map item_key (vectors ?resp)) (Some (?off + 30)) ?w'"
      by (subst scan_keys.simps) (simp add: q nt del: query_response.simps)
    also note k
    finally have "scan_keys t ks tok w =
        (Inr (ks @ map key (drop ?off ?rs)),
         w\<lparr>calls := calls w @ replicate (Suc (Suc ?k)) (QueryVectors, 30)\<rparr>)"
      unfolding vk e c .
    then show ?thesis by (simp only: pages_step [OF True])
  qed
qed

lemma delete_ok:
  assumes "vector_index w = Some cfg" and "\<forall>n. faults w DeleteVectors n = None"
  shows "delete_vectors ks w =
           (Inr (), w\<lparr>calls := calls w @ [(DeleteVectors, length ks)],
                       index_vectors := filter (\<lambda>r. key r \<notin> set ks) (index_vectors w)\<rparr>)"
  using assms by (simp add: delete_vectors_def invoke_def Let_def)

lemma delete_batches_all:
  assumes "vector_index w = Some cfg" and "\<forall>n. faults w DeleteVectors n = None"
  shows "\<exists>bs. delete_batches ks i w =
           (Inr (), w\<lparr>calls := calls w @ map (Pair DeleteVectors) bs,
                       index_vectors :=
                         filter (\<lambda>r. key r \<notin> set (drop i ks)) (index_vectors w)\<rparr>) \<and>
              length bs = (length ks - i + 99) div 100 \<and>
              (\<forall>n\<in>set bs. 0 < n \<and> n \<le> 100) \<and> sum_list bs = length ks - i"
  using assms
proof (induction ks i arbitrary: w rule: delete_batches.induct)
  case (1 ks i)
  show ?case
  proof (cases "i < length ks")
    case False
    then have "delete_batches ks i w = (Inr (), w)"
      by (simp add: delete_batches.simps [of ks i] ret_def)
    with False show ?thesis by (intro exI [of _ "[]"]) simp
  next
    case True
    let ?b = "take 100 (drop i ks)"
    let ?w1 = "w\<lparr>calls := calls w @ [(DeleteVectors, length ?b)],
                 index_vectors := filter (\<lambda>r. key r \<notin> set ?b) (index_vectors w)\<rparr>"
    note d = delete_ok [OF "1.prems", of ?b]
    have p: "vector_index ?w1 = Some cfg" "\<forall>n. faults ?w1 DeleteVectors n = None"
      using "1.prems" by simp_all
    from "1.IH" [OF True p] obtain bs where
      r: "delete_batches ks (i + 100) ?w1 =
            (Inr (), ?w1\<lparr>calls := calls ?w1 @ map (Pair DeleteVectors) bs,
                          index_vectors :=
                            filter (\<lambda>r. key r \<notin> set (drop (i + 100) ks)) (index_vectors ?w1)\<rparr>)"
      and l: "length bs = (length ks - (i + 100) + 99) div 100"
      and b: "\<forall>n\<in>set bs. 0 < n \<and> n \<le> 100" and s: "sum_list bs = length ks - (i + 100)"
      by blast
    have "drop (i + 100) ks = drop 100 (drop i ks)" by (simp add: add.commute)
    then have "?b @ drop (i + 100) ks = drop i ks" by (simp only: append_take_drop_id)
    then have "set (drop i ks) = set ?b \<union> set (drop (i + 100) ks)"
      by (simp only: set_append [symmetric])
    then have f: "filter (\<lambda>r. key r \<notin> set (drop (i + 100) ks)) (index_vectors ?w1)
                   = filter (\<lambda>r. key r \<notin> set (drop i ks)) (index_vectors w)"
      by (auto intro: filter_cong)
    have c: "calls ?w1 @ map (Pair DeleteVectors) bs
               = calls w @ map (Pair DeleteVectors) (length ?b # bs)"
      by simp
    have "delete_batches ks i w = delete_batches ks (i + 100) ?w1"
      using True by (subst delete_batches.simps) (simp add: seq_def bind_def d)
    also note r
    finally have "delete_batches ks i w =
        (Inr (), w\<lparr>calls := calls w @ map (Pair DeleteVectors) (length ?b # bs),
                    index_vectors := filter (\<lambda>r. key r \<notin> set (drop i ks)) (index_vectors w)\<rparr>)"
      unfolding f c by simp
    moreover have "length (length ?b # bs) = (length ks - i + 99) div 100"
      using l batches_step [OF True] by simp
    moreover have "\<forall>n\<in>set (length ?b # bs). 0 < n \<and> n \<le> 100"
      using b True by simp
    moreover have "sum_list (length ?b # bs) = length ks - i"
      using s True by (simp add: min_def)
    ultimately show ?thesis by blast
  qed
qed

lemma ranked_stdout [simp]: "ranked (w\<lparr>stdout := s\<rparr>) q flt = ranked w q flt"
  by (simp add: ranked_def)

lemma ranked_tenant_op:
  "ranked w q (Filter_op TENANT_ID_KEY ''eq'' (str_int t))
     = sort_key (\<lambda>r. distance w q (data r)) (tenant_records w t)"
  by (simp add: ranked_def tenant_records_def)

lemma ranked_tenant_value:
  "ranked w q (Filter_value TENANT_ID_KEY (str_int t))
     = sort_key (\<lambda>r. distance w q (data r)) (tenant_records w t)"
  by (simp add: ranked_def tenant_records_def)

lemma tenant_records_removed:
  assumes "index_vectors w' = filter (\<lambda>r. key r \<notin> key ` set (tenant_records w t)) (index_vectors w)"
  shows "tenant_records w' t = []"
  unfolding tenant_records_def assms by (auto simp: filter_empty_conv)


text \<open>
  C5, as stated, fails: the index is ready and holds two records of tenant 7, and the
  backend refuses the deletion; \<open>delete_tenant_vectors\<close> returns normally, both
  records are still there, and a query filtered on tenant 7 returns them.
\<close>

theorem failed_delete_leaves_records:
  "fst (delete_tenant_vectors 7 world_delete_fault) = Inr () \<and>
   tenant_records (snd (delete_tenant_vectors 7 world_delete_fault)) 7 = [rec7a, rec7b] \<and>
   map item_key
     (vectors (projr (fst (query_vectors [0] 8 (Filter_value TENANT_ID_KEY (str_int 7))
                             True True None
                             (snd (delete_tenant_vectors 7 world_delete_fault))))))
     = [''k1'', ''k2'']"
  by (simp add: world_delete_fault_def delete_tenant_vectors_def scan_keys.simps
        delete_batches.simps tenant_records_def to_item_def io_defs backend_defs world_defs
        rec_defs str_int_7 TENANT_ID_KEY_def)



text \<open>
  C5, amended. While the index exists and the backend answers every query and every
  deletion, \<open>delete_tenant_vectors\<close> returns normally and leaves no record tagged
  with the tenant's id, so that every query filtered on that tenant then returns no
  record. With \<open>m\<close> the number of the tenant's records, it gets there by
  \<open>1 + (m - 1) div 30\<close> queries of 30 keys each, the continuation token being
  followed until none is returned, and then by \<open>(m + 99) div 100\<close> deletions of at
  most 100 keys each, which together delete \<open>m\<close> keys.
\<close>

theorem delete_tenant_vectors_removes_all:
  assumes "vector_index w = Some cfg" and "\<forall>n. faults w QueryVectors n = None"
    and "\<forall>n. faults w DeleteVectors n = None"
  shows "fst (delete_tenant_vectors t w) = Inr () \<and>
         tenant_records (snd (delete_tenant_vectors t w)) t = [] \<and>
         (\<forall>q k rm rd tok.
            fst (query_vectors q k (Filter_value TENANT_ID_KEY (str_int t)) rm rd tok
                   (snd (delete_tenant_vectors t w)))
              = Inr \<lparr>vectors = [], nextToken = None\<rparr>) \<and>
         (\<exists>bs. calls (snd (delete_tenant_vectors t w))
                  = calls w
                    @ replicate (Suc ((length (tenant_records w t) - 1) div 30)) (QueryVectors, 30)
                    @ map (Pair DeleteVectors) bs \<and>
               length bs = (length (tenant_records w t) + 99) div 100 \<and>
               (\<forall>n\<in>set bs. 0 < n \<and> n \<le> 100) \<and>
               sum_list bs = length (tenant_records w t))"
proof -
  let ?l = "''Scanning and deleting vectors for tenant '' @ str_int t @ '' (max 30 per page)...''"
  let ?w1 = "w\<lparr>stdout := stdout w @ [?l]\<rparr>"
  let ?rs = "ranked w zero_vector (Filter_op TENANT_ID_KEY ''eq'' (str_int t))"
  let ?keys = "map key ?rs"
  let ?m = "length (tenant_records w t)"
  let ?k = "(?m - 1) div 30"
  have p1: "vector_index ?w1 = Some cfg" "\<forall>n. faults ?w1 QueryVectors n = None"
    using assms by simp_all
  have sk: "set ?keys = key ` set (tenant_records w t)"
    by (simp add: ranked_tenant_op)
  have lk: "length ?keys = ?m"
    by (simp add: ranked_tenant_op)
  then have lr: "length ?rs = ?m" by simp
  have sc: "scan_keys t [] None ?w1
           = (Inr ?keys, ?w1\<lparr>calls := calls ?w1 @ replicate (Suc ?k) (QueryVectors, 30)\<rparr>)"
    using scan_keys_all [OF p1, of t "[]" None] by (simp add: lr)
  let ?w2 = "?w1\<lparr>calls := calls ?w1 @ replicate (Suc ?k) (QueryVectors, 30)\<rparr>"
  have p2: "vector_index ?w2 = Some cfg" "\<forall>n. faults ?w2 DeleteVectors n = None"
    using assms by simp_all
  obtain w' bs where
    res: "delete_tenant_vectors t w = (Inr (), w')"
    and iv: "index_vectors w' = filter (\<lambda>r. key r \<notin> key ` set (tenant_records w t)) (index_vectors w)"
    and vi: "vector_index w' = Some cfg" and fq: "\<forall>n. faults w' QueryVectors n = None"
    and cs: "calls w' = calls w @ replicate (Suc ?k) (QueryVectors, 30) @ map (Pair DeleteVectors) bs"
    and lb: "length bs = (?m + 99) div 100"
    and bb: "\<forall>n\<in>set bs. 0 < n \<and> n \<le> 100" and sb: "sum_list bs = ?m"
  proof (cases "?keys = []")
    case True
    then have e: "tenant_records w t = []" using lk by simp
    let ?w' = "?w2\<lparr>stdout := stdout ?w2 @ [''No vectors found for tenant '' @ str_int t]\<rparr>"
    have "delete_tenant_vectors t w = (Inr (), ?w')"
      unfolding delete_tenant_vectors_def
      by (rule except_ClientError_Inr) (use sc True in \<open>simp add: seq_def bind_def print_def\<close>)
    moreover have "index_vectors ?w'
        = filter (\<lambda>r. key r \<notin> key ` set (tenant_records w t)) (index_vectors w)"
      by (simp add: e)
    moreover have "calls ?w' = calls w @ replicate (Suc ?k) (QueryVectors, 30) @ map (Pair DeleteVectors) []"
      by simp
    ultimately show ?thesis using that [of ?w' "[]"] assms e by simp
  next
    case False
    from delete_batches_all [OF p2, of ?keys 0] obtain bs where
      db: "delete_batches ?keys 0 ?w2 =
            (Inr (), ?w2\<lparr>calls := calls ?w2 @ map (Pair DeleteVectors) bs,
                          index_vectors := filter (\<lambda>r. key r \<notin> set (drop 0 ?keys)) (index_vectors ?w2)\<rparr>)"
      and l: "length bs = (length ?keys - 0 + 99) div 100"
      and b: "\<forall>n\<in>set bs. 0 < n \<and> n \<le> 100" and s: "sum_list bs = length ?keys - 0"
      by blast
    let ?w3 = "?w2\<lparr>calls := calls ?w2 @ map (Pair DeleteVectors) bs,
                    index_vectors := filter (\<lambda>r. key r \<notin> set (drop 0 ?keys)) (index_vectors ?w2)\<rparr>"
    let ?w' = "?w3\<lparr>stdout := stdout ?w3 @ [''Deleted '' @ str_int (int (length ?keys))
                            @ '' vectors for tenant '' @ str_int t]\<rparr>"
    have "delete_tenant_vectors t w = (Inr (), ?w')"
      unfolding delete_tenant_vectors_def
      by (rule except_ClientError_Inr) (use sc False db in \<open>simp add: seq_def bind_def print_def\<close>)
    moreover have "index_vectors ?w'
        = filter (\<lambda>r. key r \<notin> key ` set (tenant_records w t)) (index_vectors w)"
      using sk by simp
    moreover have "calls ?w' = calls w @ replicate (Suc ?k) (QueryVectors, 30) @ map (Pair DeleteVectors) bs"
      by simp
    ultimately show ?thesis using that [of ?w' bs] assms l b s lk by simp
  qed
  have tr: "tenant_records w' t = []" by (rule tenant_records_removed [OF iv])
  have q: "fst (query_vectors q k' (Filter_value TENANT_ID_KEY (str_int t)) rm rd tok w')
             = Inr \<lparr>vectors = [], nextToken = None\<rparr>" for q k' rm rd tok
    by (simp add: query_ok [OF vi fq] ranked_tenant_value tr)
  show ?thesis
    unfolding res using tr q cs lb bb sb by auto
qed

lemma tenant_records_world_many: "tenant_records world_many 7 = map rec7_n [0..<101]"
proof -
  have f: "filter (\<lambda>r. map_of (metadata r) TENANT_ID_KEY = Some (str_int 7)) (map rec7_n xs)
          = map rec7_n xs" for xs
    by (induction xs) (simp_all add: rec7_n_def str_int_7 TENANT_ID_KEY_def)
  have r8: "\<not> map_of (metadata rec8) TENANT_ID_KEY = Some (str_int 7)"
    by (simp add: rec8_def str_int_7 TENANT_ID_KEY_def)
  have iv: "index_vectors world_many = rec8 # map rec7_n [0..<101]"
    unfolding world_many_def by (simp del: upt_rec_numeral)
  show ?thesis
    unfolding tenant_records_def iv by (simp only: filter.simps r8 if_False f)
qed

theorem delete_tenant_vectors_removes_all_witness:
  "length (tenant_records world_many 7) = 101 \<and>
   fst (delete_tenant_vectors 7 world_many) = Inr () \<and>
   tenant_records (snd (delete_tenant_vectors 7 world_many)) 7 = [] \<and>
   (\<exists>bs. calls (snd (delete_tenant_vectors 7 world_many))
            = replicate 4 (QueryVectors, 30) @ map (Pair DeleteVectors) bs \<and>
          length bs = 2 \<and> sum_list bs = 101)"
proof -
  have h1: "vector_index world_many = Some the_index_config"
    unfolding world_many_def by (simp del: upt_rec_numeral)
  have f: "faults world_many = (\<lambda>c n. None)"
    unfolding world_many_def world0_def by (simp del: upt_rec_numeral)
  have h2: "\<forall>n. faults world_many QueryVectors n = None" by (simp add: f)
  have h3: "\<forall>n. faults world_many DeleteVectors n = None" by (simp add: f)
  have m: "length (tenant_records world_many 7) = 101"
    by (simp add: tenant_records_world_many del: upt_rec_numeral)
  have c: "calls world_many = []"
    unfolding world_many_def world0_def by (simp del: upt_rec_numeral)
  have q: "Suc ((101 - 1) div 30) = (4::nat)" by simp
  have b: "(101 + 99) div 100 = (2::nat)" by simp
  note t = delete_tenant_vectors_removes_all [OF h1 h2 h3, of 7, unfolded m c q b append_Nil]
  from t obtain bs where
    "calls (snd (delete_tenant_vectors 7 world_many))
       = replicate 4 (QueryVectors, 30) @ map (Pair DeleteVectors) bs"
    "length bs = 2" "sum_list bs = 101"
    by blast
  with t m show ?thesis by blast
qed


section \<open>Backend errors in delete and query\<close>

lemma query_not_ready:
  "index_not_ready w \<Longrightarrow>
   \<exists>c. query_vectors q k flt rm rd tok w = (Inl (ClientError c), w\<lparr>calls := calls w @ [(QueryVectors, k)]\<rparr>)"
  by (auto simp: index_not_ready_def query_vectors_def invoke_def Let_def split: option.splits)

lemma index_not_ready_stdout [simp]:
  "index_not_ready (w\<lparr>stdout := s\<rparr>) = index_not_ready w"
  by (simp add: index_not_ready_def occurrences_def split: option.splits)


lemma query_raises:
  "query_vectors q k flt rm rd tok w = (Inl e, w') \<Longrightarrow>
   w' = w\<lparr>calls := calls w @ [(QueryVectors, k)]\<rparr> \<and>
   (faults w QueryVectors (occurrences w QueryVectors) = Some e \<or>
    e = ClientError ''NotFoundException'')"
  by (auto simp: query_vectors_def invoke_def Let_def split: option.splits)


lemma scan_first_fails:
  "query_vectors zero_vector 30 (Filter_op TENANT_ID_KEY ''eq'' (str_int tenant_id)) False False None w
           = (Inl e, w') \<Longrightarrow> scan_keys tenant_id [] None w = (Inl e, w')"
  by (simp add: scan_keys.simps)






lemma delete_scan_raises:
  assumes "scan_keys t [] None
             (w\<lparr>stdout := stdout w @ [''Scanning and deleting vectors for tenant '' @ str_int t
                                        @ '' (max 30 per page)...'']\<rparr>) = (Inl e, w')"
  shows "delete_tenant_vectors t w =
           (case e of
              ClientError c \<Rightarrow>
                (Inr (), w'\<lparr>stdout := stdout w' @
                   [if c \<in> set [''ResourceNotFoundException'', ''ValidationException'']
                    then ''Index not ready or no vectors - skipping delete''
                    else ''Delete failed: '' @ str_exn (ClientError c)]\<rparr>)
            | _ \<Rightarrow> (Inl e, w'))"
  using assms
  by (cases e) (simp_all add: delete_tenant_vectors_def seq_def bind_def except_ClientError_def print_def)




lemma retrieve_query_raises:
  assumes "ensure_vector_index w = (Inr (), w1)" and "embed_query query w1 = (Inr q_vec, w2)"
    and "query_vectors q_vec top_k (Filter_value TENANT_ID_KEY (str_int tenant_id)) True True None w2
           = (Inl e, w3)"
  shows "retrieve_s3_vectors query tenant_id top_k w =
           (case e of
              ClientError c \<Rightarrow>
                (Inr [], if c = ''ResourceNotFoundException'' then w3
                         else w3\<lparr>stdout := stdout w3 @ [''Query failed: '' @ str_exn (ClientError c)]\<rparr>)
            | _ \<Rightarrow> (Inl e, w3))"
  using assms
  by (cases e)
     (simp_all add: retrieve_s3_vectors_def seq_def bind_def except_ClientError_def ret_def print_def)







section \<open>Before the index exists\<close>

lemma ensure_bucket_index:
  "ensure_bucket w = (r, w1) \<Longrightarrow> vector_index w1 = vector_index w"
  by (auto simp: ensure_bucket_def list_vector_buckets_def create_vector_bucket_def io_defs
      split: if_splits option.splits)

lemma probe_index_none:
  "vector_index w = None \<Longrightarrow> probe_index w = (r, w1) \<Longrightarrow>
   vector_index w1 = None \<and> r \<noteq> Inr True"
  by (auto simp: probe_index_def put_vectors_def io_defs split: if_splits option.splits exn.splits)

lemma create_the_index_none:
  "vector_index w = None \<Longrightarrow> create_the_index w = (r, w1) \<Longrightarrow>
   (vector_index w1 = Some the_index_config \<and> index_vectors w1 = []) \<or>
   (vector_index w1 = None \<and> r \<noteq> Inr ())"
  by (auto simp: create_the_index_def create_index_def io_defs split: if_splits option.splits)

lemma on_ClientError_index:
  "on_ClientError c w = (r, w1) \<Longrightarrow>
   vector_index w1 = vector_index w \<and> index_vectors w1 = index_vectors w"
  by (auto simp: on_ClientError_def io_defs split: if_splits)

lemma handled_index:
  assumes "body w = (r, w')" and "except_ClientError body on_ClientError w = (Inr (), w1)"
  shows "vector_index w1 = vector_index w' \<and> index_vectors w1 = index_vectors w'"
proof (cases r)
  case (Inl e)
  show ?thesis
  proof (cases e)
    case (ClientError c)
    with assms Inl have "on_ClientError c w' = (Inr (), w1)"
      by (simp add: except_ClientError_def)
    then show ?thesis by (rule on_ClientError_index)
  qed (use assms Inl in \<open>simp_all add: except_ClientError_def\<close>)
next
  case (Inr u)
  with assms show ?thesis by (simp add: except_ClientError_def)
qed

lemma ensure_from_none:
  assumes n: "vector_index w = None" and e: "ensure_vector_index w = (Inr (), w1)"
  shows "vector_index w1 = None \<or>
         (vector_index w1 = Some the_index_config \<and> index_vectors w1 = [])"
proof -
  let ?body = "seq ensure_bucket
                 (bind probe_index (\<lambda>ready. if ready then ret () else create_the_index))"
  obtain r w' where bw: "?body w = (r, w')" by (cases "?body w")
  obtain rb wb where b: "ensure_bucket w = (rb, wb)" by (cases "ensure_bucket w")
  have nb: "vector_index wb = None" using ensure_bucket_index [OF b] n by simp
  have "vector_index w' = None \<or>
        (vector_index w' = Some the_index_config \<and> index_vectors w' = [])"
  proof (cases rb)
    case (Inl eb)
    with bw b have "w' = wb" by (simp add: seq_def bind_def)
    with nb show ?thesis by simp
  next
    case (Inr u)
    obtain rp wp where p: "probe_index wb = (rp, wp)" by (cases "probe_index wb")
    note pn = probe_index_none [OF nb p]
    show ?thesis
    proof (cases rp)
      case (Inl ep)
      with bw b Inr p have "w' = wp" by (simp add: seq_def bind_def)
      with pn show ?thesis by simp
    next
      case rdy: (Inr ready)
      with pn have "ready = False" by simp
      with bw b Inr p rdy have "create_the_index wp = (r, w')" by (simp add: seq_def bind_def)
      from create_the_index_none [OF conjunct1 [OF pn] this] show ?thesis by auto
    qed
  qed
  moreover from e have "except_ClientError ?body on_ClientError w = (Inr (), w1)"
    by (simp add: ensure_vector_index_def)
  note handled_index [OF bw this]
  ultimately show ?thesis by simp
qed

lemma embed_returns:
  "embed_query text w = (Inr v, w') \<Longrightarrow>
   vector_index w' = vector_index w \<and> index_vectors w' = index_vectors w"
  by (auto simp: embed_query_def invoke_def Let_def split: option.splits)

lemma query_empty_index:
  "query_vectors q k flt rm rd tok w = (Inr resp, w') \<Longrightarrow> index_vectors w = [] \<Longrightarrow>
   vectors resp = []"
  by (auto simp: query_vectors_def invoke_def Let_def ranked_def split: option.splits)

lemma query_no_index:
  "query_vectors q k flt rm rd tok w = (Inr resp, w') \<Longrightarrow> vector_index w \<noteq> None"
  by (auto simp: query_vectors_def invoke_def Let_def split: option.splits)

lemma retrieve_query_returns:
  assumes "ensure_vector_index w = (Inr (), w1)" and "embed_query query w1 = (Inr q_vec, w2)"
    and "query_vectors q_vec top_k (Filter_value TENANT_ID_KEY (str_int tenant_id)) True True None w2
           = (Inr resp, w3)"
  shows "retrieve_s3_vectors query tenant_id top_k w = (Inr (docs_of_items (vectors resp)), w3)"
  using assms
  by (simp add: retrieve_s3_vectors_def seq_def bind_def except_ClientError_def ret_def)

lemma retrieve_before_index:
  assumes n: "vector_index w = None" and e: "ensure_vector_index w = (Inr (), w1)"
    and m: "embed_query query w1 = (Inr q_vec, w2)"
    and f: "\<And>e. faults w2 QueryVectors (occurrences w2 QueryVectors) = Some e \<Longrightarrow> is_ClientError e"
  shows "fst (retrieve_s3_vectors query tenant_id top_k w) = Inr []"
proof -
  let ?q = "query_vectors q_vec top_k (Filter_value TENANT_ID_KEY (str_int tenant_id))
              True True None w2"
  obtain r w3 where q: "?q = (r, w3)" by (cases ?q)
  show ?thesis
  proof (cases r)
    case (Inl x)
    from query_raises [OF q [unfolded Inl]] f have "is_ClientError x"
      by (auto simp: is_ClientError_def)
    then obtain c where "x = ClientError c" by (cases x) (simp_all add: is_ClientError_def)
    with retrieve_query_raises [OF e m q [unfolded Inl]] show ?thesis by simp
  next
    case (Inr resp)
    from query_no_index [OF q [unfolded Inr]] embed_returns [OF m] ensure_from_none [OF n e]
    have "index_vectors w2 = []" by auto
    from query_empty_index [OF q [unfolded Inr] this]
      retrieve_query_returns [OF e m q [unfolded Inr]]
    show ?thesis by simp
  qed
qed

lemma retrieve_creates_index:
  assumes n: "vector_index w = None" and f: "\<And>c n. faults w c n = None"
  shows "fst (retrieve_s3_vectors query tenant_id top_k w) = Inr [] \<and>
         vector_index (snd (retrieve_s3_vectors query tenant_id top_k w)) = Some the_index_config \<and>
         index_vectors (snd (retrieve_s3_vectors query tenant_id top_k w)) = [] \<and>
         calls (snd (retrieve_s3_vectors query tenant_id top_k w))
           = calls w @ (if S3_VECTORS_BUCKET_NAME \<in> set (vector_buckets w)
                        then [(ListVectorBuckets, 0)]
                        else [(ListVectorBuckets, 0), (CreateVectorBucket, 0)])
                     @ [(PutVectors, 1), (CreateIndex, 0), (EmbedQuery, 1), (QueryVectors, top_k)]"
proof (cases "S3_VECTORS_BUCKET_NAME \<in> set (vector_buckets w)")
  case True
  with n f show ?thesis
    by (simp add: retrieve_s3_vectors_def ensure_defs io_defs backend_defs list_ex_iff)
next
  case False
  with n f show ?thesis
    by (simp add: retrieve_s3_vectors_def ensure_defs io_defs backend_defs list_ex_iff)
qed

text \<open>
  C6, as stated, fails: the bucket exists, the index does not, and the backend refuses
  the creation of the index; \<open>retrieve_s3_vectors\<close> raises the refusal, and the query
  is never sent.
\<close>

theorem refused_creation_is_raised:
  "vector_index world_index_denied = None \<and>
   fst (retrieve_s3_vectors ''hours'' 7 8 world_index_denied)
     = Inl (ClientError ''AccessDeniedException'') \<and>
   occurrences (snd (retrieve_s3_vectors ''hours'' 7 8 world_index_denied)) QueryVectors = 0"
  by (simp add: world_index_denied_def retrieve_s3_vectors_def ensure_defs io_defs backend_defs
        world_defs)

text \<open>
  C6, amended. \<open>retrieve_s3_vectors\<close> calls \<open>ensure_vector_index\<close> before it
  queries (line 356). Called while the index does not exist and with no call failing,
  it has the index created, sends the query to the new, empty index and returns the
  empty list. More generally, called while the index does not exist, it returns the
  empty list whenever \<open>ensure_vector_index\<close> and the embedding return normally and the
  query does not fail with an exception other than a \<open>ClientError\<close>; and it returns
  the empty list whenever its query meets an index that is not there. An exception that
  \<open>ensure_vector_index\<close> raises, such as a refused creation, is raised to the caller.
  When the scan of \<open>delete_tenant_vectors\<close> meets an index that is not there, the
  function returns normally after that one query, deletes nothing and leaves the index
  as it was.
\<close>

theorem index_not_ready_degrades:
  "(vector_index w = None \<longrightarrow> (\<forall>c n. faults w c n = None) \<longrightarrow>
      fst (retrieve_s3_vectors query tenant_id top_k w) = Inr [] \<and>
      vector_index (snd (retrieve_s3_vectors query tenant_id top_k w)) = Some the_index_config \<and>
      index_vectors (snd (retrieve_s3_vectors query tenant_id top_k w)) = [] \<and>
      calls (snd (retrieve_s3_vectors query tenant_id top_k w))
        = calls w @ (if S3_VECTORS_BUCKET_NAME \<in> set (vector_buckets w)
                     then [(ListVectorBuckets, 0)]
                     else [(ListVectorBuckets, 0), (CreateVectorBucket, 0)])
                  @ [(PutVectors, 1), (CreateIndex, 0), (EmbedQuery, 1), (QueryVectors, top_k)]) \<and>
   (vector_index w = None \<longrightarrow> ensure_vector_index w = (Inr (), w1) \<longrightarrow>
    embed_query query w1 = (Inr q_vec, w2) \<longrightarrow>
    (\<forall>e. faults w2 QueryVectors (occurrences w2 QueryVectors) = Some e \<longrightarrow> is_ClientError e) \<longrightarrow>
      fst (retrieve_s3_vectors query tenant_id top_k w) = Inr []) \<and>
   (ensure_vector_index w = (Inr (), w1) \<longrightarrow> embed_query query w1 = (Inr q_vec, w2) \<longrightarrow>
      index_not_ready w2 \<longrightarrow>
        fst (retrieve_s3_vectors query tenant_id top_k w) = Inr []) \<and>
   (ensure_vector_index w = (Inl e, w1) \<longrightarrow>
      retrieve_s3_vectors query tenant_id top_k w = (Inl e, w1)) \<and>
   (index_not_ready w \<longrightarrow>
      fst (delete_tenant_vectors tenant_id w) = Inr () \<and>
      index_vectors (snd (delete_tenant_vectors tenant_id w)) = index_vectors w \<and>
      vector_index (snd (delete_tenant_vectors tenant_id w)) = vector_index w \<and>
      calls (snd (delete_tenant_vectors tenant_id w)) = calls w @ [(QueryVectors, 30)])"
proof (intro conjI impI)
  assume a: "vector_index w = None" "\<forall>c n. faults w c n = None"
  note r = retrieve_creates_index [OF a(1) a(2) [rule_format], of query tenant_id top_k]
  from r show "fst (retrieve_s3_vectors query tenant_id top_k w) = Inr []" by (rule conjunct1)
  from r show "vector_index (snd (retrieve_s3_vectors query tenant_id top_k w))
                 = Some the_index_config"
    by (rule conjunct2 [THEN conjunct1])
  from r show "index_vectors (snd (retrieve_s3_vectors query tenant_id top_k w)) = []"
    by (rule conjunct2 [THEN conjunct2, THEN conjunct1])
  from r show "calls (snd (retrieve_s3_vectors query tenant_id top_k w))
        = calls w @ (if S3_VECTORS_BUCKET_NAME \<in> set (vector_buckets w)
                     then [(ListVectorBuckets, 0)]
                     else [(ListVectorBuckets, 0), (CreateVectorBucket, 0)])
                  @ [(PutVectors, 1), (CreateIndex, 0), (EmbedQuery, 1), (QueryVectors, top_k)]"
    by (rule conjunct2 [THEN conjunct2, THEN conjunct2])
next
  assume a: "vector_index w = None" "ensure_vector_index w = (Inr (), w1)"
    "embed_query query w1 = (Inr q_vec, w2)"
    "\<forall>e. faults w2 QueryVectors (occurrences w2 QueryVectors) = Some e \<longrightarrow> is_ClientError e"
  show "fst (retrieve_s3_vectors query tenant_id top_k w) = Inr []"
    by (rule retrieve_before_index [OF a(1,2,3) a(4) [rule_format]])
next
  assume a: "ensure_vector_index w = (Inr (), w1)" "embed_query query w1 = (Inr q_vec, w2)"
    "index_not_ready w2"
  from query_not_ready [OF a(3)] obtain c where
    "query_vectors q_vec top_k (Filter_value TENANT_ID_KEY (str_int tenant_id)) True True None w2
       = (Inl (ClientError c), w2\<lparr>calls := calls w2 @ [(QueryVectors, top_k)]\<rparr>)"
    by blast
  from retrieve_query_raises [OF a(1,2) this]
  show "fst (retrieve_s3_vectors query tenant_id top_k w) = Inr []"
    by simp
next
  assume "ensure_vector_index w = (Inl e, w1)"
  then show "retrieve_s3_vectors query tenant_id top_k w = (Inl e, w1)"
    by (simp add: retrieve_s3_vectors_def seq_def bind_def)
next
  assume a: "index_not_ready w"
  let ?l = "''Scanning and deleting vectors for tenant '' @ str_int tenant_id @ '' (max 30 per page)...''"
  let ?w = "w\<lparr>stdout := stdout w @ [?l]\<rparr>"
  from a have "index_not_ready ?w" by simp
  from query_not_ready [OF this] obtain c where
    q: "query_vectors zero_vector 30 (Filter_op TENANT_ID_KEY ''eq'' (str_int tenant_id)) False False None ?w
       = (Inl (ClientError c), ?w\<lparr>calls := calls ?w @ [(QueryVectors, 30)]\<rparr>)"
    by blast
  note d = delete_scan_raises [OF scan_first_fails [OF q]]
  show "fst (delete_tenant_vectors tenant_id w) = Inr ()" by (simp add: d)
  show "index_vectors (snd (delete_tenant_vectors tenant_id w)) = index_vectors w" by (simp add: d)
  show "vector_index (snd (delete_tenant_vectors tenant_id w)) = vector_index w" by (simp add: d)
  show "calls (snd (delete_tenant_vectors tenant_id w)) = calls w @ [(QueryVectors, 30)]" by (simp add: d)
qed

theorem index_not_ready_degrades_witness:
  "vector_index world0 = None \<and>
   fst (retrieve_s3_vectors ''hours'' 7 8 world0) = Inr [] \<and>
   vector_index (snd (retrieve_s3_vectors ''hours'' 7 8 world0)) = Some the_index_config \<and>
   calls (snd (retrieve_s3_vectors ''hours'' 7 8 world0))
     = [(ListVectorBuckets, 0), (CreateVectorBucket, 0), (PutVectors, 1), (CreateIndex, 0),
        (EmbedQuery, 1), (QueryVectors, 8)] \<and>
   vector_index world_index_race = None \<and>
   fst (retrieve_s3_vectors ''hours'' 7 8 world_index_race) = Inr [] \<and>
   fst (retrieve_s3_vectors ''hours'' 7 8
          (fail_call QueryVectors 0 (ClientError ''ResourceNotFoundException'') world_ready))
     = Inr [] \<and>
   fst (retrieve_s3_vectors ''hours'' 7 8 world_index_denied)
     = Inl (ClientError ''AccessDeniedException'') \<and>
   index_not_ready world_bucket \<and>
   fst (delete_tenant_vectors 7 world_bucket) = Inr () \<and>
   calls (snd (delete_tenant_vectors 7 world_bucket)) = [(QueryVectors, 30)]"
proof -
  let ?e1 = "\<lambda>w::nat world. snd (ensure_vector_index w)"
  let ?e2 = "\<lambda>w::nat world. snd (embed_query ''hours'' (?e1 w))"
  let ?wn = "fail_call QueryVectors 0 (ClientError ''ResourceNotFoundException'') world_ready"
  note defs = ensure_defs io_defs backend_defs world_defs rec_defs
  have a1: "vector_index world0 = None" by (simp add: world_defs)
  have a2: "faults world0 c n = None" for c n by (simp add: world_defs)
  note A = index_not_ready_degrades
    [where w = world0 and query = "''hours''" and tenant_id = 7 and top_k = 8,
     THEN conjunct1, rule_format, OF a1 a2]
  have A1: "fst (retrieve_s3_vectors ''hours'' 7 8 world0) = Inr []"
    using A by (rule conjunct1)
  have A2: "vector_index (snd (retrieve_s3_vectors ''hours'' 7 8 world0)) = Some the_index_config"
    using A by (rule conjunct2 [THEN conjunct1])
  have A3: "calls (snd (retrieve_s3_vectors ''hours'' 7 8 world0))
     = [(ListVectorBuckets, 0), (CreateVectorBucket, 0), (PutVectors, 1), (CreateIndex, 0),
        (EmbedQuery, 1), (QueryVectors, 8)]"
    using A [THEN conjunct2, THEN conjunct2, THEN conjunct2] by (simp add: world_defs)
  have b1: "vector_index world_index_race = None"
    by (simp add: world_index_race_def world_defs)
  have b2: "ensure_vector_index world_index_race = (Inr (), ?e1 world_index_race)"
    by (rule run_eq) (simp add: world_index_race_def defs)
  have b3: "embed_query ''hours'' (?e1 world_index_race) = (Inr [5], ?e2 world_index_race)"
    by (rule run_eq) (simp add: world_index_race_def defs)
  have b4: "\<forall>e. faults (?e2 world_index_race) QueryVectors
                   (occurrences (?e2 world_index_race) QueryVectors) = Some e
                 \<longrightarrow> is_ClientError e"
    by (simp add: world_index_race_def defs)
  note B0 = index_not_ready_degrades
    [where w = world_index_race and ?w1.0 = "?e1 world_index_race" and query = "''hours''"
       and q_vec = "[5]" and ?w2.0 = "?e2 world_index_race" and tenant_id = 7 and top_k = 8,
     THEN conjunct2, THEN conjunct1]
  note B = mp [OF mp [OF mp [OF mp [OF B0 b1] b2] b3] b4]
  have c1: "ensure_vector_index ?wn = (Inr (), ?e1 ?wn)"
    by (rule run_eq) (simp add: defs)
  have c2: "embed_query ''hours'' (?e1 ?wn) = (Inr [5], ?e2 ?wn)"
    by (rule run_eq) (simp add: defs)
  have c3: "index_not_ready (?e2 ?wn)"
    by (simp add: index_not_ready_def defs)
  note C = index_not_ready_degrades
    [where w = ?wn and ?w1.0 = "?e1 ?wn" and query = "''hours''"
       and q_vec = "[5]" and ?w2.0 = "?e2 ?wn" and tenant_id = 7 and top_k = 8,
     THEN conjunct2, THEN conjunct2, THEN conjunct1, rule_format, OF c1 c2 c3]
  have d1: "ensure_vector_index world_index_denied
              = (Inl (ClientError ''AccessDeniedException''), ?e1 world_index_denied)"
    by (rule run_eq) (simp add: world_index_denied_def defs)
  note D = index_not_ready_degrades
    [where w = world_index_denied and ?w1.0 = "?e1 world_index_denied" and query = "''hours''"
       and e = "ClientError ''AccessDeniedException''" and tenant_id = 7 and top_k = 8,
     THEN conjunct2, THEN conjunct2, THEN conjunct2, THEN conjunct1, rule_format, OF d1]
  have D1: "fst (retrieve_s3_vectors ''hours'' 7 8 world_index_denied)
              = Inl (ClientError ''AccessDeniedException'')"
    unfolding D by simp
  have e1: "index_not_ready world_bucket"
    by (simp add: index_not_ready_def io_defs world_defs)
  note E = index_not_ready_degrades
    [where w = world_bucket and tenant_id = 7,
     THEN conjunct2, THEN conjunct2, THEN conjunct2, THEN conjunct2, rule_format, OF e1]
  have E1: "fst (delete_tenant_vectors 7 world_bucket) = Inr ()"
    using E by (rule conjunct1)
  have E2: "calls (snd (delete_tenant_vectors 7 world_bucket)) = [(QueryVectors, 30)]"
    using E [THEN conjunct2, THEN conjunct2, THEN conjunct2] by (simp add: world_defs)
  show ?thesis
    by (intro conjI) (rule a1 A1 A2 A3 b1 B C D1 e1 E1 E2)+
qed


section \<open>Tenant isolation\<close>










lemma to_item_calls [simp]: "to_item (w\<lparr>calls := c\<rparr>) q rm rd = to_item w q rm rd"
  by (rule ext) (simp add: to_item_def)

lemma tenant_records_calls [simp]: "tenant_records (w\<lparr>calls := c\<rparr>) t = tenant_records w t"
  by (simp add: tenant_records_def)

lemma tenant_records_stdout [simp]: "tenant_records (w\<lparr>stdout := c\<rparr>) t = tenant_records w t"
  by (simp add: tenant_records_def)







end
